theory Spec2Isabelle
  imports Main
begin

section \<open>Configuration constants of snake.py\<close>

definition ANCHO_PANTALLA :: int where "ANCHO_PANTALLA = 600"
definition ALTO_PANTALLA :: int where "ALTO_PANTALLA = 600"
definition TAMANO_CELDA :: int where "TAMANO_CELDA = 20"
definition VELOCIDAD_BASE :: int where "VELOCIDAD_BASE = 150"
definition PUNTOS_POR_NIVEL :: int where "PUNTOS_POR_NIVEL = 50"

section \<open>Data model\<close>

text \<open>
  \<^verbatim>\<open>TipoComida\<close> is the enum of the four food kinds; a food object carries its kind
  (the concrete subclass of \<^verbatim>\<open>Comida\<close>) and its coordinates \<^verbatim>\<open>x\<close>, \<^verbatim>\<open>y\<close>.
\<close>

datatype TipoComida = VENENOSA | FIT | ALTO_GRASAS | REAL

datatype Comida = Comida (tipo: TipoComida) (comida_x: int) (comida_y: int)

text \<open>
  The temporary effect is the dictionary \<^verbatim>\<open>{"tipo": ..., "duracion": ...}\<close>.
\<close>

record efecto =
  efecto_tipo :: string
  duracion :: int

text \<open>
  The texts handed to \<^verbatim>\<open>mostrar_mensaje\<close> contain characters outside ASCII, so the
  message catalogue is a datatype: one constructor per literal of the source, the two
  f-strings carrying the number they interpolate. \<open>MsgVacio\<close> is the empty string.
\<close>

datatype mensaje =
    MsgVacio
  | MsgVenenosa
  | MsgVenenosaSinEfecto
  | MsgFit
  | MsgAltoGrasas
  | MsgReal
  | MsgNivel int
  | MsgReinicio int

text \<open>
  The attributes of a \<^verbatim>\<open>JuegoSnake\<close> object that the simulation reads and writes.
  A turtle is represented by its position; an obstacle by its \<^verbatim>\<open>(x, y)\<close>.
  Every coordinate the program produces is integer-valued (the origin, steps of
  \<^verbatim>\<open>TAMANO_CELDA\<close>, rounded random cells), hence \<open>int\<close>.
  \<open>comida\<close> is \<open>None\<close> while the attribute does not exist yet (inside the constructor,
  before the first \<^verbatim>\<open>generar_nueva_comida\<close>).
\<close>

record juego =
  serpiente :: "(int \<times> int) list"
  obstaculos :: "(int \<times> int) list"
  comida :: "Comida option"
  direccion :: string
  puntaje :: int
  nivel :: int
  juegos_jugados :: int
  velocidad_actual :: int
  efecto_temporal :: "efecto option"
  mensaje_actual :: mensaje
  color_mensaje :: string
  tiempo_mensaje :: int

text \<open>
  Errors as values. \<open>IndexError\<close> and \<open>AttributeError\<close> are the Python exceptions of
  \<^verbatim>\<open>self.serpiente[0]\<close> on an empty list and of \<^verbatim>\<open>self.comida\<close> on an object without
  that attribute. \<open>Agotado\<close> is not an exception: the \<^verbatim>\<open>while True\<close> loops of the
  source draw random numbers until a candidate is accepted, the model reads the draws
  from a finite list, and \<open>Agotado\<close> says that the loop was still running when the
  supplied draws ended.
\<close>

datatype error = IndexError | AttributeError | Agotado

section \<open>Random draws\<close>

text \<open>
  The generator is a parameter: a list of raw natural numbers, one consumed by each call
  of \<^verbatim>\<open>random.randint\<close> or \<^verbatim>\<open>random.choice\<close>. \<open>randint lo hi r\<close> maps a raw number into
  \<open>[lo, hi]\<close> (every value of the range is hit), \<open>choice xs r\<close> picks an index.
\<close>

type_synonym aleatorios = "nat list"

definition randint :: "int \<Rightarrow> int \<Rightarrow> nat \<Rightarrow> int" where
  "randint lo hi r = lo + int r mod (hi - lo + 1)"

definition choice :: "'a list \<Rightarrow> nat \<Rightarrow> 'a" where
  "choice xs r = xs ! (r mod length xs)"

text \<open>
  \<^verbatim>\<open>round(x / TAMANO_CELDA) * TAMANO_CELDA\<close>: Python divides to a float and rounds half
  to even. For an integer \<open>x\<close> of the drawn range the quotient is a tie exactly when
  \<open>x mod 20 = 10\<close>, so the rounding is decided on the integer remainder.
\<close>

definition py_round_div :: "int \<Rightarrow> int \<Rightarrow> int" where
  "py_round_div x d =
     (let q = x div d; r = x mod d
      in if 2 * r < d then q
         else if 2 * r > d then q + 1
         else if even q then q else q + 1)"

definition alinear :: "int \<Rightarrow> int" where
  "alinear x = py_round_div x TAMANO_CELDA * TAMANO_CELDA"

section \<open>Food: effects and factory\<close>

definition mostrar_mensaje :: "mensaje \<Rightarrow> string \<Rightarrow> juego \<Rightarrow> juego" where
  "mostrar_mensaje m color g =
     g\<lparr>mensaje_actual := m, tiempo_mensaje := 60, color_mensaje := color\<rparr>"

text \<open>
  \<^verbatim>\<open>crecer_serpiente\<close> appends a fresh turtle; a fresh turtle stands at the origin.
\<close>

definition crecer_serpiente :: "juego \<Rightarrow> juego" where
  "crecer_serpiente g = g\<lparr>serpiente := serpiente g @ [(0, 0)]\<rparr>"

fun aplicar_efecto :: "TipoComida \<Rightarrow> juego \<Rightarrow> juego" where
  "aplicar_efecto VENENOSA g =
     (if length (serpiente g) > 1
      then mostrar_mensaje MsgVenenosa ''purple''
             (g\<lparr>serpiente := butlast (serpiente g),
                puntaje := max 0 (puntaje g - 1)\<rparr>)
      else mostrar_mensaje MsgVenenosaSinEfecto ''purple'' g)"
| "aplicar_efecto FIT g =
     mostrar_mensaje MsgFit ''green''
       ((crecer_serpiente g)\<lparr>puntaje := puntaje g + 1\<rparr>)"
| "aplicar_efecto ALTO_GRASAS g =
     mostrar_mensaje MsgAltoGrasas ''gold''
       ((crecer_serpiente g)
          \<lparr>puntaje := puntaje g + 3,
           velocidad_actual := max 50 (velocidad_actual g - 50),
           efecto_temporal := Some \<lparr>efecto_tipo = ''lento'', duracion = 5\<rparr>\<rparr>)"
| "aplicar_efecto REAL g =
     mostrar_mensaje MsgReal ''orange''
       ((crecer_serpiente g)
          \<lparr>puntaje := puntaje g + 5,
           velocidad_actual := min 300 (velocidad_actual g + 30),
           efecto_temporal := Some \<lparr>efecto_tipo = ''rapido'', duracion = 5\<rparr>\<rparr>)"

definition tipos_comida :: "TipoComida list" where
  "tipos_comida =
     replicate 4 FIT @ replicate 3 ALTO_GRASAS @ replicate 2 REAL @ replicate 1 VENENOSA"

fun crear_comida_aleatoria :: "aleatorios \<Rightarrow> error + (Comida \<times> aleatorios)" where
  "crear_comida_aleatoria (rx # ry # rt # rs) =
     (let x = randint (- 280) 280 rx;
          y = randint (- 280) 280 ry;
          x = alinear x;
          y = alinear y;
          tipo_elegido = choice tipos_comida rt
      in Inr (Comida tipo_elegido x y, rs))"
| "crear_comida_aleatoria _ = Inl Agotado"

section \<open>The game\<close>

subsection \<open>Obstacles\<close>

text \<open>
  The inner \<^verbatim>\<open>while True\<close> of \<^verbatim>\<open>generar_obstaculos\<close>: draw a cell until it is away from
  the centre and from every obstacle already placed, then append it.
\<close>

fun colocar_obstaculo ::
  "aleatorios \<Rightarrow> (int \<times> int) list \<Rightarrow> error + ((int \<times> int) list \<times> aleatorios)" where
  "colocar_obstaculo (rx # ry # rs) obs =
     (let x = randint (- 280) 280 rx;
          y = randint (- 280) 280 ry;
          x = alinear x;
          y = alinear y
      in if (abs x > 40 \<or> abs y > 40)
            \<and> \<not> list_ex (\<lambda>(ox, oy). abs (ox - x) < 40 \<and> abs (oy - y) < 40) obs
         then Inr (obs @ [(x, y)], rs)
         else colocar_obstaculo rs obs)"
| "colocar_obstaculo _ obs = Inl Agotado"

text \<open>The outer \<^verbatim>\<open>for _ in range(num_obstaculos)\<close>.\<close>

fun colocar_obstaculos ::
  "nat \<Rightarrow> aleatorios \<Rightarrow> (int \<times> int) list \<Rightarrow> error + ((int \<times> int) list \<times> aleatorios)" where
  "colocar_obstaculos 0 rs obs = Inr (obs, rs)"
| "colocar_obstaculos (Suc n) rs obs =
     (case colocar_obstaculo rs obs of
        Inl e \<Rightarrow> Inl e
      | Inr (obs', rs') \<Rightarrow> colocar_obstaculos n rs' obs')"

definition generar_obstaculos :: "aleatorios \<Rightarrow> juego \<Rightarrow> error + (juego \<times> aleatorios)" where
  "generar_obstaculos rs g =
     (let num_obstaculos = (nivel g - 1) * 2
      in case colocar_obstaculos (nat num_obstaculos) rs (obstaculos g) of
           Inl e \<Rightarrow> Inl e
         | Inr (obs, rs') \<Rightarrow> Inr (g\<lparr>obstaculos := obs\<rparr>, rs'))"

subsection \<open>Food placement\<close>

definition conflicto_comida :: "Comida \<Rightarrow> juego \<Rightarrow> bool" where
  "conflicto_comida c g =
     (list_ex (\<lambda>(ox, oy). abs (comida_x c - ox) < 20 \<and> abs (comida_y c - oy) < 20)
        (obstaculos g)
      \<or> list_ex (\<lambda>(sx, sy). abs (comida_x c - sx) < 20 \<and> abs (comida_y c - sy) < 20)
          (serpiente g))"

function generar_nueva_comida :: "aleatorios \<Rightarrow> juego \<Rightarrow> error + (juego \<times> aleatorios)" where
  "generar_nueva_comida rs g =
     (case crear_comida_aleatoria rs of
        Inl e \<Rightarrow> Inl e
      | Inr (c, rs') \<Rightarrow>
          if conflicto_comida c g then generar_nueva_comida rs' g
          else Inr (g\<lparr>comida := Some c\<rparr>, rs'))"
  by pat_completeness auto
termination
  by (relation "measure (\<lambda>(rs, g). length rs)")
     (auto elim!: crear_comida_aleatoria.elims simp: Let_def)

declare generar_nueva_comida.simps [simp del]

subsection \<open>Initialisation\<close>

text \<open>
  \<^verbatim>\<open>inicializar_juego\<close> asks \<^verbatim>\<open>hasattr\<close> for the attributes of an earlier run. The
  argument is \<open>None\<close> for the fresh object of the constructor (no attribute exists; the
  message colour is the white set by \<^verbatim>\<open>configurar_pantalla\<close>) and \<open>Some g\<close> afterwards.
\<close>

definition inicializar_juego ::
  "aleatorios \<Rightarrow> juego option \<Rightarrow> error + (juego \<times> aleatorios)" where
  "inicializar_juego rs previo =
     (let n = (case previo of None \<Rightarrow> 1 | Some g \<Rightarrow> nivel g)
      in generar_obstaculos rs
           \<lparr>serpiente = [] @ [(0, 0)],
            obstaculos = [],
            comida = (case previo of None \<Rightarrow> None | Some g \<Rightarrow> comida g),
            direccion = ''derecha'',
            puntaje = (case previo of None \<Rightarrow> 0 | Some g \<Rightarrow> puntaje g),
            nivel = n,
            juegos_jugados = (case previo of None \<Rightarrow> 0 | Some g \<Rightarrow> juegos_jugados g),
            velocidad_actual = VELOCIDAD_BASE + (n - 1) * 20,
            efecto_temporal = None,
            mensaje_actual = MsgVacio,
            color_mensaje = (case previo of None \<Rightarrow> ''white'' | Some g \<Rightarrow> color_mensaje g),
            tiempo_mensaje = 0\<rparr>)"

text \<open>The constructor \<^verbatim>\<open>JuegoSnake.__init__\<close>.\<close>

definition JuegoSnake :: "aleatorios \<Rightarrow> error + (juego \<times> aleatorios)" where
  "JuegoSnake rs =
     (case inicializar_juego rs None of
        Inl e \<Rightarrow> Inl e
      | Inr (g, rs') \<Rightarrow> generar_nueva_comida rs' g)"

subsection \<open>Direction and movement\<close>

definition direcciones_opuestas :: "string \<rightharpoonup> string" where
  "direcciones_opuestas =
     [''arriba'' \<mapsto> ''abajo'', ''abajo'' \<mapsto> ''arriba'',
      ''izquierda'' \<mapsto> ''derecha'', ''derecha'' \<mapsto> ''izquierda'']"

definition cambiar_direccion :: "string \<Rightarrow> juego \<Rightarrow> juego" where
  "cambiar_direccion nueva_direccion g =
     (if Some nueva_direccion \<noteq> direcciones_opuestas (direccion g)
      then g\<lparr>direccion := nueva_direccion\<rparr>
      else g)"

definition paso_cabeza :: "string \<Rightarrow> int \<times> int \<Rightarrow> int \<times> int" where
  "paso_cabeza d p =
     (case p of (x, y) \<Rightarrow>
        if d = ''arriba'' then (x, y + TAMANO_CELDA)
        else if d = ''abajo'' then (x, y - TAMANO_CELDA)
        else if d = ''izquierda'' then (x - TAMANO_CELDA, y)
        else if d = ''derecha'' then (x + TAMANO_CELDA, y)
        else (x, y))"

text \<open>
  The loop \<^verbatim>\<open>for i in range(len(self.serpiente) - 1, 0, -1)\<close>: \<open>seguir k s\<close> runs it for
  \<open>i = k, k - 1, ..., 1\<close>, each turn moving segment \<open>i\<close> to where segment \<open>i - 1\<close> stands.
\<close>

fun seguir :: "nat \<Rightarrow> (int \<times> int) list \<Rightarrow> (int \<times> int) list" where
  "seguir 0 s = s"
| "seguir (Suc i) s = seguir i (s[Suc i := s ! i])"

definition mover_serpiente :: "juego \<Rightarrow> error + juego" where
  "mover_serpiente g =
     (case serpiente g of
        [] \<Rightarrow> Inl IndexError
      | cabeza # _ \<Rightarrow>
          Inr (g\<lparr>serpiente :=
                 (seguir (length (serpiente g) - 1) (serpiente g))
                   [0 := paso_cabeza (direccion g) cabeza]\<rparr>))"

subsection \<open>Collisions\<close>

text \<open>
  \<^verbatim>\<open>turtle.distance\<close> is the Euclidean distance; on integer coordinates
  \<^verbatim>\<open>distance < r\<close> is the comparison of the squares.
\<close>

definition distancia2 :: "int \<times> int \<Rightarrow> int \<times> int \<Rightarrow> int" where
  "distancia2 p q = (fst p - fst q) * (fst p - fst q) + (snd p - snd q) * (snd p - snd q)"

definition verificar_colisiones :: "juego \<Rightarrow> error + bool" where
  "verificar_colisiones g =
     (case serpiente g of
        [] \<Rightarrow> Inl IndexError
      | cabeza # cuerpo \<Rightarrow>
          (case cabeza of (x, y) \<Rightarrow>
             if x > 290 \<or> x < - 290 \<or> y > 290 \<or> y < - 290 then Inr True
             else Inr (list_ex (\<lambda>segmento. distancia2 cabeza segmento < 10 * 10) cuerpo)))"

definition verificar_colision_obstaculos :: "juego \<Rightarrow> error + bool" where
  "verificar_colision_obstaculos g =
     (case serpiente g of
        [] \<Rightarrow> Inl IndexError
      | cabeza # _ \<Rightarrow>
          Inr (list_ex (\<lambda>obstaculo. distancia2 cabeza obstaculo < 15 * 15) (obstaculos g)))"

subsection \<open>Levels, eating, effects\<close>

definition verificar_subida_nivel :: "aleatorios \<Rightarrow> juego \<Rightarrow> error + (juego \<times> aleatorios)" where
  "verificar_subida_nivel rs g =
     (let nuevo_nivel = (puntaje g div PUNTOS_POR_NIVEL) + 1
      in if nuevo_nivel > nivel g
         then generar_obstaculos rs
                (mostrar_mensaje (MsgNivel nuevo_nivel) ''cyan''
                   (g\<lparr>nivel := nuevo_nivel,
                      velocidad_actual := VELOCIDAD_BASE + (nuevo_nivel - 1) * 20\<rparr>))
         else Inr (g, rs))"

definition verificar_comida :: "aleatorios \<Rightarrow> juego \<Rightarrow> error + (juego \<times> aleatorios)" where
  "verificar_comida rs g =
     (case serpiente g of
        [] \<Rightarrow> Inl IndexError
      | cabeza # _ \<Rightarrow>
          (case comida g of
             None \<Rightarrow> Inl AttributeError
           | Some c \<Rightarrow>
               if distancia2 cabeza (comida_x c, comida_y c) < 15 * 15
               then (case generar_nueva_comida rs (aplicar_efecto (tipo c) g) of
                       Inl e \<Rightarrow> Inl e
                     | Inr (g', rs') \<Rightarrow> verificar_subida_nivel rs' g')
               else Inr (g, rs)))"

definition actualizar_efectos_temporales :: "juego \<Rightarrow> juego" where
  "actualizar_efectos_temporales g =
     (case efecto_temporal g of
        None \<Rightarrow> g
      | Some e \<Rightarrow>
          if duracion e - 1 \<le> 0
          then g\<lparr>velocidad_actual := VELOCIDAD_BASE, efecto_temporal := None\<rparr>
          else g\<lparr>efecto_temporal := Some (e\<lparr>duracion := duracion e - 1\<rparr>)\<rparr>)"

definition actualizar_pantalla :: "juego \<Rightarrow> juego" where
  "actualizar_pantalla g =
     (if tiempo_mensaje g > 0 then g\<lparr>tiempo_mensaje := tiempo_mensaje g - 1\<rparr> else g)"

subsection \<open>Death and the main loop\<close>

definition game_over :: "aleatorios \<Rightarrow> juego \<Rightarrow> error + (juego \<times> aleatorios)" where
  "game_over rs g =
     (case inicializar_juego rs (Some (g\<lparr>juegos_jugados := juegos_jugados g + 1\<rparr>)) of
        Inl e \<Rightarrow> Inl e
      | Inr (g1, rs1) \<Rightarrow>
          (case generar_nueva_comida rs1 g1 of
             Inl e \<Rightarrow> Inl e
           | Inr (g2, rs2) \<Rightarrow>
               Inr (mostrar_mensaje (MsgReinicio (juegos_jugados g2)) ''yellow'' g2, rs2)))"

text \<open>
  One turn of the \<^verbatim>\<open>while True\<close> of \<^verbatim>\<open>ejecutar\<close>. The key handlers run inside
  \<^verbatim>\<open>pantalla.update()\<close>, in the order the keys were pressed since the last update;
  \<open>teclas\<close> is that sequence. (Keys handled by the update inside \<^verbatim>\<open>game_over\<close> only change
  the direction, which the reset overwrites.) The sleep at the end of the turn is not part
  of the state.
\<close>

definition atender_teclas :: "string list \<Rightarrow> juego \<Rightarrow> juego" where
  "atender_teclas teclas g = foldl (\<lambda>g' k. cambiar_direccion k g') g teclas"

definition ejecutar_paso ::
  "string list \<Rightarrow> aleatorios \<Rightarrow> juego \<Rightarrow> error + (juego \<times> aleatorios)" where
  "ejecutar_paso teclas rs g0 =
     (let g = atender_teclas teclas g0
      in case verificar_colisiones g of
           Inl e \<Rightarrow> Inl e
         | Inr True \<Rightarrow> game_over rs g
         | Inr False \<Rightarrow>
             (case verificar_colision_obstaculos g of
                Inl e \<Rightarrow> Inl e
              | Inr True \<Rightarrow> game_over rs g
              | Inr False \<Rightarrow>
                  (case mover_serpiente g of
                     Inl e \<Rightarrow> Inl e
                   | Inr g1 \<Rightarrow>
                       (case verificar_comida rs g1 of
                          Inl e \<Rightarrow> Inl e
                        | Inr (g2, rs2) \<Rightarrow>
                            Inr (actualizar_pantalla (actualizar_efectos_temporales g2),
                                 rs2)))))"

text \<open>
  \<^verbatim>\<open>ejecutar\<close> never returns. \<open>ejecutar_turnos\<close> is its first turns, one per element of
  the list, which gives the keys handled by the update of that turn.
\<close>

fun ejecutar_turnos ::
  "string list list \<Rightarrow> aleatorios \<Rightarrow> juego \<Rightarrow> error + (juego \<times> aleatorios)" where
  "ejecutar_turnos [] rs g = Inr (g, rs)"
| "ejecutar_turnos (teclas # resto) rs g =
     (case ejecutar_paso teclas rs g of
        Inl e \<Rightarrow> Inl e
      | Inr (g', rs') \<Rightarrow> ejecutar_turnos resto rs' g')"

text \<open>The four keys bound by \<^verbatim>\<open>configurar_controles\<close>.\<close>

definition teclas_validas :: "string list \<Rightarrow> bool" where
  "teclas_validas teclas =
     list_all (\<lambda>k. k \<in> set [''arriba'', ''abajo'', ''izquierda'', ''derecha'']) teclas"

text \<open>
  The states of the program at the end of a turn of the main loop: the state the
  constructor builds, and every state a turn reaches from such a state, for any
  keys and any random draws.
\<close>

inductive alcanzable :: "juego \<Rightarrow> bool" where
  inicio: "JuegoSnake rs = Inr (g, rs') \<Longrightarrow> alcanzable g"
| turno: "alcanzable g \<Longrightarrow> teclas_validas teclas \<Longrightarrow>
          ejecutar_paso teclas rs g = Inr (g', rs') \<Longrightarrow> alcanzable g'"

text \<open>
  A turn is a death-reset when one of the two collision checks at its start answers
  \<^verbatim>\<open>True\<close>; \<open>muere\<close> is asked of the state after the keys were handled.
\<close>

definition muere :: "juego \<Rightarrow> bool" where
  "muere g =
     (verificar_colisiones g = Inr True \<or> verificar_colision_obstaculos g = Inr True)"

text \<open>
  For a sequence of turns started in \<open>g\<close> with the draws \<open>rs\<close>: \<open>vivos\<close> says that no turn
  is a death-reset, \<open>subidas\<close> counts the turns that raise the level.
\<close>

fun vivos :: "string list list \<Rightarrow> aleatorios \<Rightarrow> juego \<Rightarrow> bool" where
  "vivos [] rs g = True"
| "vivos (teclas # resto) rs g =
     (\<not> muere (atender_teclas teclas g)
      \<and> (case ejecutar_paso teclas rs g of
            Inl e \<Rightarrow> True
          | Inr (g', rs') \<Rightarrow> vivos resto rs' g'))"

fun subidas :: "string list list \<Rightarrow> aleatorios \<Rightarrow> juego \<Rightarrow> nat" where
  "subidas [] rs g = 0"
| "subidas (teclas # resto) rs g =
     (case ejecutar_paso teclas rs g of
        Inl e \<Rightarrow> 0
      | Inr (g', rs') \<Rightarrow> (if nivel g < nivel g' then 1 else 0) + subidas resto rs' g')"

text \<open>
  \<open>caduca g\<close>: the decay applied to \<open>g\<close> ends the active effect. \<open>vigente\<close> collects the
  reachable states in whose history no effect has ended since the speed was last set
  from the level: by the constructor, by a death-reset, or by a level-up.
\<close>

definition caduca :: "juego \<Rightarrow> bool" where
  "caduca g = (case efecto_temporal g of None \<Rightarrow> False | Some e \<Rightarrow> duracion e - 1 \<le> 0)"

inductive vigente :: "juego \<Rightarrow> bool" where
  vigente_inicio: "JuegoSnake rs = Inr (g, rs') \<Longrightarrow> vigente g"
| vigente_muerte: "alcanzable g \<Longrightarrow> teclas_validas teclas \<Longrightarrow>
      muere (atender_teclas teclas g) \<Longrightarrow>
      ejecutar_paso teclas rs g = Inr (g', rs') \<Longrightarrow> vigente g'"
| vigente_subida: "alcanzable g \<Longrightarrow> teclas_validas teclas \<Longrightarrow>
      \<not> muere (atender_teclas teclas g) \<Longrightarrow>
      mover_serpiente (atender_teclas teclas g) = Inr g1 \<Longrightarrow>
      verificar_comida rs g1 = Inr (g2, rs') \<Longrightarrow>
      nivel g < nivel g2 \<Longrightarrow> \<not> caduca g2 \<Longrightarrow>
      vigente (actualizar_pantalla (actualizar_efectos_temporales g2))"
| vigente_sigue: "vigente g \<Longrightarrow> teclas_validas teclas \<Longrightarrow>
      \<not> muere (atender_teclas teclas g) \<Longrightarrow>
      mover_serpiente (atender_teclas teclas g) = Inr g1 \<Longrightarrow>
      verificar_comida rs g1 = Inr (g2, rs') \<Longrightarrow>
      \<not> caduca g2 \<Longrightarrow>
      vigente (actualizar_pantalla (actualizar_efectos_temporales g2))"

text \<open>
  Draws that make the obstacle loop return: \<open>celdas_libres cs obs\<close> says that the cells
  \<open>cs\<close>, taken in order, are cells of the grid that the loop accepts after the obstacles
  \<open>obs\<close>; \<open>sorteo_celdas cs\<close> are raw draws that \<^verbatim>\<open>random.randint\<close> and the rounding turn
  into exactly these cells.
\<close>

fun celdas_libres :: "(int \<times> int) list \<Rightarrow> (int \<times> int) list \<Rightarrow> bool" where
  "celdas_libres [] obs = True"
| "celdas_libres (p # cs) obs =
     (fst p mod 20 = 0 \<and> snd p mod 20 = 0
      \<and> - 280 \<le> fst p \<and> fst p \<le> 280 \<and> - 280 \<le> snd p \<and> snd p \<le> 280
      \<and> (abs (fst p) > 40 \<or> abs (snd p) > 40)
      \<and> \<not> list_ex (\<lambda>(ox, oy). abs (ox - fst p) < 40 \<and> abs (oy - snd p) < 40) obs
      \<and> celdas_libres cs (obs @ [p]))"

fun sorteo_celdas :: "(int \<times> int) list \<Rightarrow> aleatorios" where
  "sorteo_celdas [] = []"
| "sorteo_celdas (p # cs) = nat (fst p + 280) # nat (snd p + 280) # sorteo_celdas cs"

text \<open>
  Sample states for the concrete checks: the state built by the constructor when the
  first food is drawn one cell to the right of the head, and a snake of three segments
  heading right.
\<close>

definition juego_nuevo :: juego where
  "juego_nuevo =
     \<lparr>serpiente = [(0, 0)], obstaculos = [], comida = Some (Comida REAL 20 0),
      direccion = ''derecha'', puntaje = 0, nivel = 1, juegos_jugados = 0,
      velocidad_actual = 150, efecto_temporal = None, mensaje_actual = MsgVacio,
      color_mensaje = ''white'', tiempo_mensaje = 0\<rparr>"

definition juego_tres :: juego where
  "juego_tres = juego_nuevo\<lparr>serpiente := [(60, 0), (40, 0), (20, 0)]\<rparr>"

text \<open>
  A state right after a move that put the head on a Fit food with 49 points at level 1
  (a second life: the snake is the single head), and the state the program reaches from
  it by eating.
\<close>

definition juego_49 :: juego where
  "juego_49 =
     juego_nuevo\<lparr>serpiente := [(20, 0)], comida := Some (Comida FIT 20 0),
                 puntaje := 49, juegos_jugados := 1\<rparr>"

definition juego_50 :: juego where
  "juego_50 =
     \<lparr>serpiente = [(20, 0), (0, 0)], obstaculos = [(- 100, - 100), (- 200, - 200)],
      comida = Some (Comida FIT 40 0), direccion = ''derecha'', puntaje = 50, nivel = 2,
      juegos_jugados = 1, velocidad_actual = 170, efecto_temporal = None,
      mensaje_actual = MsgNivel 2, color_mensaje = ''cyan'', tiempo_mensaje = 60\<rparr>"

text \<open>A snake of three segments about to step on a Poisonous food.\<close>

definition juego_veneno :: juego where
  "juego_veneno = juego_tres\<lparr>comida := Some (Comida VENENOSA 80 0)\<rparr>"

subsection \<open>A concrete play-through\<close>

text \<open>
  The draws and the states of one sequence of turns, used for the concrete checks. The
  game starts in \<open>juego_nuevo\<close>. In the first life the snake eats ten Royal foods in a row
  (\<open>estado_10\<close>: level 2), moves on without eating while the effect runs out
  (\<open>estado_13\<close>, \<open>estado_14\<close>), leaves the board (\<open>estado_15\<close>) and is reset (\<open>estado_16\<close>).
  Lives two to five eat fourteen Royal foods each and end at the wall (\<open>estado_32\<close>,
  \<open>estado_48\<close>, \<open>estado_64\<close>, \<open>estado_80\<close>); the sixth reaches 400 points
  (\<open>estado_94\<close>) and then eats a Fit food (\<open>estado_95\<close>). \<open>sorteo_k\<close> holds the raw draws
  consumed by the turns of that stretch.
\<close>

definition sorteo_1 :: aleatorios where
  "sorteo_1 =
     [320, 280, 7, 340, 280, 7, 360, 280, 7, 380, 280, 7, 400, 280, 7, 420,
      280, 7, 440, 280, 7, 460, 280, 7, 480, 280, 7, 280, 480, 0, 0, 0,
      40, 0]"

definition sorteo_muerte_1 :: aleatorios where
  "sorteo_muerte_1 =
     [80, 0, 120, 0, 300, 280, 7]"

definition sorteo_2 :: aleatorios where
  "sorteo_2 =
     [320, 280, 7, 340, 280, 7, 360, 280, 7, 380, 280, 7, 400, 280, 7, 420,
      280, 7, 440, 280, 7, 460, 280, 7, 480, 280, 7, 500, 280, 7, 0, 0,
      40, 0, 160, 0, 200, 0, 520, 280, 7, 540, 280, 7, 560, 280, 7, 280,
      480, 0, 0, 0, 40, 0, 80, 0, 120, 0, 300, 280, 7]"

definition sorteo_3 :: aleatorios where
  "sorteo_3 =
     [320, 280, 7, 340, 280, 7, 360, 280, 7, 380, 280, 7, 400, 280, 7, 420,
      280, 7, 160, 0, 200, 0, 240, 0, 280, 0, 320, 0, 360, 0, 440, 280,
      7, 460, 280, 7, 480, 280, 7, 500, 280, 7, 520, 280, 7, 540, 280, 7,
      560, 280, 7, 280, 480, 0, 0, 0, 40, 0, 80, 0, 120, 0, 160, 0,
      200, 0, 300, 280, 7]"

definition sorteo_4 :: aleatorios where
  "sorteo_4 =
     [320, 280, 7, 340, 280, 7, 240, 0, 280, 0, 320, 0, 360, 0, 400, 0,
      440, 0, 480, 0, 520, 0, 360, 280, 7, 380, 280, 7, 400, 280, 7, 420,
      280, 7, 440, 280, 7, 460, 280, 7, 480, 280, 7, 500, 280, 7, 520, 280,
      7, 540, 280, 7, 560, 0, 0, 40, 40, 40, 80, 40, 120, 40, 160, 40,
      200, 40, 240, 40, 280, 40, 320, 40, 560, 280, 7, 280, 480, 0, 0, 0,
      40, 0, 80, 0, 120, 0, 160, 0, 200, 0, 240, 0, 280, 0, 320, 0,
      360, 0, 300, 280, 7]"

definition sorteo_5 :: aleatorios where
  "sorteo_5 =
     [320, 280, 7, 340, 280, 7, 360, 280, 7, 380, 280, 7, 400, 280, 7, 420,
      280, 7, 440, 280, 7, 460, 280, 7, 400, 0, 440, 0, 480, 0, 520, 0,
      560, 0, 0, 40, 40, 40, 80, 40, 120, 40, 160, 40, 200, 40, 240, 40,
      480, 280, 7, 500, 280, 7, 520, 280, 7, 540, 280, 7, 560, 280, 7, 280,
      480, 0, 0, 0, 40, 0, 80, 0, 120, 0, 160, 0, 200, 0, 240, 0,
      280, 0, 320, 0, 360, 0, 400, 0, 440, 0, 300, 280, 7]"

definition sorteo_6 :: aleatorios where
  "sorteo_6 =
     [320, 280, 7, 340, 280, 7, 360, 280, 7, 380, 280, 7, 480, 0, 520, 0,
      560, 0, 0, 40, 40, 40, 80, 40, 120, 40, 160, 40, 200, 40, 240, 40,
      280, 40, 320, 40, 360, 40, 400, 40, 400, 280, 7, 420, 280, 7, 440, 280,
      7, 460, 280, 7, 480, 280, 7, 500, 280, 7, 520, 280, 7, 540, 280, 7,
      560, 280, 7, 560, 300, 0, 440, 40, 480, 40, 520, 40, 560, 40, 0, 80,
      40, 80, 80, 80, 120, 80, 160, 80, 200, 80, 240, 80, 280, 80, 320, 80,
      360, 80, 400, 80, 440, 80]"

definition sorteo_7 :: aleatorios where
  "sorteo_7 =
     [280, 480, 0]"

definition estado_10 :: juego where
  "estado_10 =
     \<lparr>serpiente = [(200, 0), (180, 0), (160, 0), (140, 0), (120, 0), (100, 0), (80, 0), (60, 0), (40, 0), (20, 0), (0, 0)],
      obstaculos = [(- 280, - 280), (- 240, - 280)],
      comida = Some (Comida FIT 0 200), direccion = ''derecha'',
      puntaje = 50, nivel = 2, juegos_jugados = 0, velocidad_actual = 170,
      efecto_temporal = Some \<lparr>efecto_tipo = ''rapido'', duracion = 4\<rparr>,
      mensaje_actual = MsgNivel 2, color_mensaje = ''cyan'', tiempo_mensaje = 59\<rparr>"

definition estado_13 :: juego where
  "estado_13 =
     \<lparr>serpiente = [(260, 0), (240, 0), (220, 0), (200, 0), (180, 0), (160, 0), (140, 0), (120, 0), (100, 0), (80, 0), (60, 0)],
      obstaculos = [(- 280, - 280), (- 240, - 280)],
      comida = Some (Comida FIT 0 200), direccion = ''derecha'',
      puntaje = 50, nivel = 2, juegos_jugados = 0, velocidad_actual = 170,
      efecto_temporal = Some \<lparr>efecto_tipo = ''rapido'', duracion = 1\<rparr>,
      mensaje_actual = MsgNivel 2, color_mensaje = ''cyan'', tiempo_mensaje = 56\<rparr>"

definition estado_14 :: juego where
  "estado_14 =
     \<lparr>serpiente = [(280, 0), (260, 0), (240, 0), (220, 0), (200, 0), (180, 0), (160, 0), (140, 0), (120, 0), (100, 0), (80, 0)],
      obstaculos = [(- 280, - 280), (- 240, - 280)],
      comida = Some (Comida FIT 0 200), direccion = ''derecha'',
      puntaje = 50, nivel = 2, juegos_jugados = 0, velocidad_actual = 150,
      efecto_temporal = None,
      mensaje_actual = MsgNivel 2, color_mensaje = ''cyan'', tiempo_mensaje = 55\<rparr>"

definition estado_15 :: juego where
  "estado_15 =
     \<lparr>serpiente = [(300, 0), (280, 0), (260, 0), (240, 0), (220, 0), (200, 0), (180, 0), (160, 0), (140, 0), (120, 0), (100, 0)],
      obstaculos = [(- 280, - 280), (- 240, - 280)],
      comida = Some (Comida FIT 0 200), direccion = ''derecha'',
      puntaje = 50, nivel = 2, juegos_jugados = 0, velocidad_actual = 150,
      efecto_temporal = None,
      mensaje_actual = MsgNivel 2, color_mensaje = ''cyan'', tiempo_mensaje = 54\<rparr>"

definition estado_16 :: juego where
  "estado_16 =
     \<lparr>serpiente = [(0, 0)],
      obstaculos = [(- 200, - 280), (- 160, - 280)],
      comida = Some (Comida REAL 20 0), direccion = ''derecha'',
      puntaje = 50, nivel = 2, juegos_jugados = 1, velocidad_actual = 170,
      efecto_temporal = None,
      mensaje_actual = MsgReinicio 1, color_mensaje = ''yellow'', tiempo_mensaje = 60\<rparr>"

definition estado_32 :: juego where
  "estado_32 =
     \<lparr>serpiente = [(0, 0)],
      obstaculos = [(- 280, - 280), (- 240, - 280), (- 200, - 280), (- 160, - 280)],
      comida = Some (Comida REAL 20 0), direccion = ''derecha'',
      puntaje = 120, nivel = 3, juegos_jugados = 2, velocidad_actual = 190,
      efecto_temporal = None,
      mensaje_actual = MsgReinicio 2, color_mensaje = ''yellow'', tiempo_mensaje = 60\<rparr>"

definition estado_48 :: juego where
  "estado_48 =
     \<lparr>serpiente = [(0, 0)],
      obstaculos = [(- 280, - 280), (- 240, - 280), (- 200, - 280), (- 160, - 280), (- 120, - 280), (- 80, - 280)],
      comida = Some (Comida REAL 20 0), direccion = ''derecha'',
      puntaje = 190, nivel = 4, juegos_jugados = 3, velocidad_actual = 210,
      efecto_temporal = None,
      mensaje_actual = MsgReinicio 3, color_mensaje = ''yellow'', tiempo_mensaje = 60\<rparr>"

definition estado_64 :: juego where
  "estado_64 =
     \<lparr>serpiente = [(0, 0)],
      obstaculos = [(- 280, - 280), (- 240, - 280), (- 200, - 280), (- 160, - 280), (- 120, - 280), (- 80, - 280), (- 40, - 280), (0, - 280), (40, - 280), (80, - 280)],
      comida = Some (Comida REAL 20 0), direccion = ''derecha'',
      puntaje = 260, nivel = 6, juegos_jugados = 4, velocidad_actual = 250,
      efecto_temporal = None,
      mensaje_actual = MsgReinicio 4, color_mensaje = ''yellow'', tiempo_mensaje = 60\<rparr>"

definition estado_80 :: juego where
  "estado_80 =
     \<lparr>serpiente = [(0, 0)],
      obstaculos = [(- 280, - 280), (- 240, - 280), (- 200, - 280), (- 160, - 280), (- 120, - 280), (- 80, - 280), (- 40, - 280), (0, - 280), (40, - 280), (80, - 280), (120, - 280), (160, - 280)],
      comida = Some (Comida REAL 20 0), direccion = ''derecha'',
      puntaje = 330, nivel = 7, juegos_jugados = 5, velocidad_actual = 270,
      efecto_temporal = None,
      mensaje_actual = MsgReinicio 5, color_mensaje = ''yellow'', tiempo_mensaje = 60\<rparr>"

definition estado_94 :: juego where
  "estado_94 =
     \<lparr>serpiente = [(280, 0), (260, 0), (240, 0), (220, 0), (200, 0), (180, 0), (160, 0), (140, 0), (120, 0), (100, 0), (80, 0), (60, 0), (40, 0), (20, 0), (0, 0)],
      obstaculos = [(- 280, - 280), (- 240, - 280), (- 200, - 280), (- 160, - 280), (- 120, - 280), (- 80, - 280), (- 40, - 280), (0, - 280), (40, - 280), (80, - 280), (120, - 280), (160, - 280), (200, - 280), (240, - 280), (280, - 280), (- 280, - 240), (- 240, - 240), (- 200, - 240), (- 160, - 240), (- 120, - 240), (- 80, - 240), (- 40, - 240), (0, - 240), (40, - 240), (80, - 240), (120, - 240), (160, - 240), (200, - 240), (240, - 240), (280, - 240), (- 280, - 200), (- 240, - 200), (- 200, - 200), (- 160, - 200), (- 120, - 200), (- 80, - 200), (- 40, - 200), (0, - 200), (40, - 200), (80, - 200), (120, - 200), (160, - 200)],
      comida = Some (Comida FIT 280 20), direccion = ''derecha'',
      puntaje = 400, nivel = 9, juegos_jugados = 5, velocidad_actual = 310,
      efecto_temporal = Some \<lparr>efecto_tipo = ''rapido'', duracion = 4\<rparr>,
      mensaje_actual = MsgNivel 9, color_mensaje = ''cyan'', tiempo_mensaje = 59\<rparr>"

definition estado_95 :: juego where
  "estado_95 =
     \<lparr>serpiente = [(280, 20), (280, 0), (260, 0), (240, 0), (220, 0), (200, 0), (180, 0), (160, 0), (140, 0), (120, 0), (100, 0), (80, 0), (60, 0), (40, 0), (20, 0), (0, 0)],
      obstaculos = [(- 280, - 280), (- 240, - 280), (- 200, - 280), (- 160, - 280), (- 120, - 280), (- 80, - 280), (- 40, - 280), (0, - 280), (40, - 280), (80, - 280), (120, - 280), (160, - 280), (200, - 280), (240, - 280), (280, - 280), (- 280, - 240), (- 240, - 240), (- 200, - 240), (- 160, - 240), (- 120, - 240), (- 80, - 240), (- 40, - 240), (0, - 240), (40, - 240), (80, - 240), (120, - 240), (160, - 240), (200, - 240), (240, - 240), (280, - 240), (- 280, - 200), (- 240, - 200), (- 200, - 200), (- 160, - 200), (- 120, - 200), (- 80, - 200), (- 40, - 200), (0, - 200), (40, - 200), (80, - 200), (120, - 200), (160, - 200)],
      comida = Some (Comida FIT 0 200), direccion = ''arriba'',
      puntaje = 401, nivel = 9, juegos_jugados = 5, velocidad_actual = 310,
      efecto_temporal = Some \<lparr>efecto_tipo = ''rapido'', duracion = 3\<rparr>,
      mensaje_actual = MsgFit, color_mensaje = ''green'', tiempo_mensaje = 59\<rparr>"

section \<open>Direction changes\<close>

text \<open>
  C9. \<^verbatim>\<open>cambiar_direccion\<close> touches nothing but the stored direction; it keeps the stored
  direction when the input is the opposite of it and stores the input in every other
  case, the same direction included. With \<^verbatim>\<open>derecha\<close> stored, \<^verbatim>\<open>izquierda\<close> is rejected.
\<close>

theorem cambiar_direccion_regla:
  "cambiar_direccion n g =
     g\<lparr>direccion := (if direcciones_opuestas (direccion g) = Some n then direccion g else n)\<rparr>
   \<and> (direccion g = ''derecha'' \<longrightarrow>
        direccion (cambiar_direccion ''izquierda'' g) = ''derecha'')"
  by (auto simp: cambiar_direccion_def direcciones_opuestas_def)

theorem cambiar_direccion_regla_witness:
  "direccion juego_nuevo = ''derecha''
   \<and> direccion (cambiar_direccion ''izquierda'' juego_nuevo) = ''derecha''
   \<and> cambiar_direccion ''derecha'' juego_nuevo = juego_nuevo\<lparr>direccion := ''derecha''\<rparr>
   \<and> cambiar_direccion ''arriba'' juego_nuevo = juego_nuevo\<lparr>direccion := ''arriba''\<rparr>"
  using cambiar_direccion_regla [of "''izquierda''" juego_nuevo]
    cambiar_direccion_regla [of "''derecha''" juego_nuevo]
    cambiar_direccion_regla [of "''arriba''" juego_nuevo]
  by (simp add: juego_nuevo_def direcciones_opuestas_def)

section \<open>Movement\<close>

lemma seguir_length: "length (seguir k s) = length s"
  by (induction k arbitrary: s) auto

lemma seguir_nth:
  "k < length s \<Longrightarrow> j < length s \<Longrightarrow>
   seguir k s ! j = (if 1 \<le> j \<and> j \<le> k then s ! (j - 1) else s ! j)"
proof (induction k arbitrary: s)
  case 0
  then show ?case by simp
next
  case (Suc i)
  have "seguir (Suc i) s ! j = seguir i (s[Suc i := s ! i]) ! j" by simp
  also have "\<dots> = (if 1 \<le> j \<and> j \<le> i then (s[Suc i := s ! i]) ! (j - 1)
                     else (s[Suc i := s ! i]) ! j)"
    using Suc.prems by (intro Suc.IH) auto
  also have "\<dots> = (if 1 \<le> j \<and> j \<le> Suc i then s ! (j - 1) else s ! j)"
    using Suc.prems by (auto simp: nth_list_update)
  finally show ?case .
qed

text \<open>
  C6. For a snake of at least one segment and each of the four directions,
  \<^verbatim>\<open>mover_serpiente\<close> returns, changes only the snake, keeps its length, puts the head one
  cell (\<^verbatim>\<open>TAMANO_CELDA\<close>) further in the stored direction, and puts every other segment
  \<open>i\<close> where segment \<open>i - 1\<close> stood before the call.
\<close>

theorem mover_serpiente_avanza:
  assumes "serpiente g \<noteq> []"
    and "direccion g \<in> {''arriba'', ''abajo'', ''izquierda'', ''derecha''}"
  shows "\<exists>s'. mover_serpiente g = Inr (g\<lparr>serpiente := s'\<rparr>)
           \<and> length s' = length (serpiente g)
           \<and> s' ! 0 =
               (let x = fst (serpiente g ! 0); y = snd (serpiente g ! 0)
                in if direccion g = ''arriba'' then (x, y + TAMANO_CELDA)
                   else if direccion g = ''abajo'' then (x, y - TAMANO_CELDA)
                   else if direccion g = ''izquierda'' then (x - TAMANO_CELDA, y)
                   else (x + TAMANO_CELDA, y))
           \<and> (\<forall>i. 1 \<le> i \<and> i < length (serpiente g) \<longrightarrow> s' ! i = serpiente g ! (i - 1))"
proof -
  obtain c cs where s: "serpiente g = c # cs"
    using assms(1) by (cases "serpiente g") auto
  let ?s' = "(seguir (length (serpiente g) - 1) (serpiente g))[0 := paso_cabeza (direccion g) c]"
  have m: "mover_serpiente g = Inr (g\<lparr>serpiente := ?s'\<rparr>)"
    by (simp add: mover_serpiente_def s)
  have l: "length ?s' = length (serpiente g)"
    by (simp add: seguir_length)
  have h: "?s' ! 0 = paso_cabeza (direccion g) c"
    by (simp add: seguir_length s)
  have t: "\<forall>i. 1 \<le> i \<and> i < length (serpiente g) \<longrightarrow> ?s' ! i = serpiente g ! (i - 1)"
  proof (intro allI impI)
    fix i assume i: "1 \<le> i \<and> i < length (serpiente g)"
    then have "?s' ! i = seguir (length (serpiente g) - 1) (serpiente g) ! i" by simp
    also have "\<dots> = serpiente g ! (i - 1)"
      using i by (subst seguir_nth) auto
    finally show "?s' ! i = serpiente g ! (i - 1)" .
  qed
  have h': "paso_cabeza (direccion g) c =
               (let x = fst (serpiente g ! 0); y = snd (serpiente g ! 0)
                in if direccion g = ''arriba'' then (x, y + TAMANO_CELDA)
                   else if direccion g = ''abajo'' then (x, y - TAMANO_CELDA)
                   else if direccion g = ''izquierda'' then (x - TAMANO_CELDA, y)
                   else (x + TAMANO_CELDA, y))"
    using assms(2) by (cases c) (auto simp: paso_cabeza_def s Let_def)
  show ?thesis
    using m l h t h' by (intro exI[of _ ?s']) simp
qed

lemma mover_juego_tres:
  "mover_serpiente juego_tres = Inr (juego_tres\<lparr>serpiente := [(80, 0), (60, 0), (40, 0)]\<rparr>)"
  by (simp add: mover_serpiente_def juego_tres_def juego_nuevo_def paso_cabeza_def
      TAMANO_CELDA_def numeral_2_eq_2)

theorem mover_serpiente_avanza_witness:
  "serpiente juego_tres \<noteq> []
   \<and> direccion juego_tres \<in> {''arriba'', ''abajo'', ''izquierda'', ''derecha''}
   \<and> (\<exists>s'. mover_serpiente juego_tres = Inr (juego_tres\<lparr>serpiente := s'\<rparr>)
         \<and> length s' = 3 \<and> s' ! 0 = (80, 0) \<and> s' ! 1 = (60, 0) \<and> s' ! 2 = (40, 0))"
proof -
  have a: "serpiente juego_tres \<noteq> []"
    by (simp add: juego_tres_def)
  have b: "direccion juego_tres \<in> {''arriba'', ''abajo'', ''izquierda'', ''derecha''}"
    by (simp add: juego_tres_def juego_nuevo_def)
  from mover_serpiente_avanza [OF a b] obtain s' where
    s': "mover_serpiente juego_tres = Inr (juego_tres\<lparr>serpiente := s'\<rparr>)"
        "length s' = length (serpiente juego_tres)"
    by blast
  from s'(1) have e: "juego_tres\<lparr>serpiente := s'\<rparr>
      = juego_tres\<lparr>serpiente := [(80, 0), (60, 0), (40, 0)]\<rparr>"
    by (simp only: mover_juego_tres sum.inject)
  from arg_cong [OF e, of serpiente] have v: "s' = [(80, 0), (60, 0), (40, 0)]"
    by simp
  have "mover_serpiente juego_tres = Inr (juego_tres\<lparr>serpiente := s'\<rparr>)
      \<and> length s' = 3 \<and> s' ! 0 = (80, 0) \<and> s' ! 1 = (60, 0) \<and> s' ! 2 = (40, 0)"
    using s'(1) by (simp add: v numeral_2_eq_2)
  then show ?thesis using a b by blast
qed

section \<open>Reversal between two advances\<close>

lemma mover_serpiente_Cons:
  "serpiente g = c # cs \<Longrightarrow>
   mover_serpiente g =
     Inr (g\<lparr>serpiente := paso_cabeza (direccion g) c # tl (seguir (length cs) (c # cs))\<rparr>)"
proof -
  assume s: "serpiente g = c # cs"
  have "length (seguir (length cs) (c # cs)) = Suc (length cs)"
    by (simp add: seguir_length)
  then obtain a as where sg: "seguir (length cs) (c # cs) = a # as"
    by (cases "seguir (length cs) (c # cs)") simp_all
  show ?thesis
    by (simp add: mover_serpiente_def s sg)
qed

text \<open>
  C10. The guard of \<^verbatim>\<open>cambiar_direccion\<close> looks at the stored direction only. After an
  advance to the right, the keys \<^verbatim>\<open>arriba\<close> and \<^verbatim>\<open>izquierda\<close> handled before the next
  advance are both accepted, the stored direction becomes the opposite of the one the
  previous advance used, and the next advance puts the head back on the cell it had left.
\<close>

theorem inversion_entre_avances:
  assumes "direccion g = ''derecha''" and "serpiente g \<noteq> []"
  shows "\<exists>g1 g3. mover_serpiente g = Inr g1
           \<and> direccion (cambiar_direccion ''arriba'' g1) = ''arriba''
           \<and> direccion (atender_teclas [''arriba'', ''izquierda''] g1) = ''izquierda''
           \<and> direcciones_opuestas (direccion g)
               = Some (direccion (atender_teclas [''arriba'', ''izquierda''] g1))
           \<and> mover_serpiente (atender_teclas [''arriba'', ''izquierda''] g1) = Inr g3
           \<and> hd (serpiente g3) = hd (serpiente g)"
proof -
  obtain c cs where s: "serpiente g = c # cs"
    using assms(2) by (cases "serpiente g") auto
  obtain x y where c: "c = (x, y)" by (cases c)
  let ?t1 = "tl (seguir (length cs) (c # cs))"
  let ?g1 = "g\<lparr>serpiente := paso_cabeza ''derecha'' c # ?t1\<rparr>"
  have m1: "mover_serpiente g = Inr ?g1"
    using mover_serpiente_Cons [OF s] by (simp add: assms(1))
  let ?g2 = "atender_teclas [''arriba'', ''izquierda''] ?g1"
  have d1: "direccion (cambiar_direccion ''arriba'' ?g1) = ''arriba''"
    by (simp add: cambiar_direccion_def direcciones_opuestas_def assms(1))
  have g2: "?g2 = ?g1\<lparr>direccion := ''izquierda''\<rparr>"
    by (simp add: atender_teclas_def cambiar_direccion_def direcciones_opuestas_def assms(1))
  have s2: "serpiente ?g2 = paso_cabeza ''derecha'' c # ?t1"
    by (simp add: g2)
  let ?g3 = "?g2\<lparr>serpiente := paso_cabeza (direccion ?g2) (paso_cabeza ''derecha'' c)
                 # tl (seguir (length ?t1) (paso_cabeza ''derecha'' c # ?t1))\<rparr>"
  have m3: "mover_serpiente ?g2 = Inr ?g3"
    by (rule mover_serpiente_Cons [OF s2])
  have d2: "direccion ?g2 = ''izquierda''" by (simp add: g2)
  have "hd (serpiente ?g3) = paso_cabeza (direccion ?g2) (paso_cabeza ''derecha'' c)"
    by simp
  also have "\<dots> = paso_cabeza ''izquierda'' (paso_cabeza ''derecha'' c)"
    by (simp only: d2)
  also have "\<dots> = c"
    by (simp add: c paso_cabeza_def)
  also have "c = hd (serpiente g)"
    by (simp add: s)
  finally have h: "hd (serpiente ?g3) = hd (serpiente g)" .
  have o: "direcciones_opuestas (direccion g) = Some (direccion ?g2)"
    by (simp only: d2 assms(1)) (simp add: direcciones_opuestas_def)
  show ?thesis
    using m1 d1 d2 o m3 h by (intro exI [of _ ?g1] exI [of _ ?g3] conjI)
qed

lemma dos_turnos_juego_tres:
  "ejecutar_turnos [[], [''arriba'', ''izquierda'']] [] juego_tres
     = Inr (juego_tres\<lparr>serpiente := [(60, 0), (80, 0), (60, 0)],
                       direccion := ''izquierda''\<rparr>, [])"
  by code_simp

lemma muere_tras_inversion:
  "muere (juego_tres\<lparr>serpiente := [(60, 0), (80, 0), (60, 0)], direccion := ''izquierda''\<rparr>)"
  by code_simp

theorem inversion_entre_avances_witness:
  "direccion juego_tres = ''derecha'' \<and> serpiente juego_tres \<noteq> []
   \<and> (\<exists>g1 g3. mover_serpiente juego_tres = Inr g1
        \<and> direccion (atender_teclas [''arriba'', ''izquierda''] g1) = ''izquierda''
        \<and> mover_serpiente (atender_teclas [''arriba'', ''izquierda''] g1) = Inr g3
        \<and> hd (serpiente g3) = (60, 0))
   \<and> ejecutar_turnos [[], [''arriba'', ''izquierda'']] [] juego_tres
       = Inr (juego_tres\<lparr>serpiente := [(60, 0), (80, 0), (60, 0)],
                         direccion := ''izquierda''\<rparr>, [])
   \<and> muere (juego_tres\<lparr>serpiente := [(60, 0), (80, 0), (60, 0)],
                       direccion := ''izquierda''\<rparr>)"
proof -
  have a: "direccion juego_tres = ''derecha''" and b: "serpiente juego_tres \<noteq> []"
    and h: "hd (serpiente juego_tres) = (60, 0)"
    by (simp_all add: juego_tres_def juego_nuevo_def)
  from inversion_entre_avances [OF a b] h have
    "\<exists>g1 g3. mover_serpiente juego_tres = Inr g1
        \<and> direccion (atender_teclas [''arriba'', ''izquierda''] g1) = ''izquierda''
        \<and> mover_serpiente (atender_teclas [''arriba'', ''izquierda''] g1) = Inr g3
        \<and> hd (serpiente g3) = (60, 0)"
    by metis
  with a b dos_turnos_juego_tres muere_tras_inversion show ?thesis
    by (intro conjI)
qed

section \<open>Food placement\<close>

lemma alinear_mod: "alinear x mod TAMANO_CELDA = 0"
  by (simp add: alinear_def)

lemma crear_comida_aleatoria_alineada:
  assumes "crear_comida_aleatoria rs = Inr (c, rs')"
  shows "comida_x c mod TAMANO_CELDA = 0 \<and> comida_y c mod TAMANO_CELDA = 0"
proof -
  from assms obtain rx ry rt where
    "c = Comida (choice tipos_comida rt)
           (alinear (randint (- 280) 280 rx)) (alinear (randint (- 280) 280 ry))"
    by (auto elim!: crear_comida_aleatoria.elims simp: Let_def)
  then show ?thesis by (simp add: alinear_mod)
qed

lemma generar_nueva_comida_resultado:
  "generar_nueva_comida rs g = Inr (g', rs') \<Longrightarrow>
   \<exists>c. g' = g\<lparr>comida := Some c\<rparr> \<and> \<not> conflicto_comida c g
      \<and> comida_x c mod TAMANO_CELDA = 0 \<and> comida_y c mod TAMANO_CELDA = 0"
proof (induction rs g rule: generar_nueva_comida.induct)
  case (1 rs g)
  show ?case
  proof (cases "crear_comida_aleatoria rs")
    case (Inl e)
    have "generar_nueva_comida rs g = Inl e"
      by (subst generar_nueva_comida.simps) (simp add: Inl)
    with "1.prems" show ?thesis by simp
  next
    case (Inr r)
    obtain c r1 where r: "r = (c, r1)" by (cases r)
    have cr: "crear_comida_aleatoria rs = Inr (c, r1)" using Inr r by simp
    note al = crear_comida_aleatoria_alineada [OF cr]
    have eq: "generar_nueva_comida rs g =
        (if conflicto_comida c g then generar_nueva_comida r1 g
         else Inr (g\<lparr>comida := Some c\<rparr>, r1))"
      by (subst generar_nueva_comida.simps) (simp add: cr)
    show ?thesis
    proof (cases "conflicto_comida c g")
      case True
      with "1.prems" eq have "generar_nueva_comida r1 g = Inr (g', rs')"
        by simp
      with "1.IH" [OF cr refl True] show ?thesis .
    next
      case False
      with "1.prems" eq have "g' = g\<lparr>comida := Some c\<rparr>"
        by simp
      with False al show ?thesis by (intro exI [of _ c]) simp
    qed
  qed
qed

lemma sin_conflicto_comida:
  assumes "\<not> conflicto_comida c g"
  shows "(\<forall>(ox, oy) \<in> set (obstaculos g).
             \<not> (abs (comida_x c - ox) < 20 \<and> abs (comida_y c - oy) < 20))
         \<and> (\<forall>(sx, sy) \<in> set (serpiente g).
             \<not> (abs (comida_x c - sx) < 20 \<and> abs (comida_y c - sy) < 20))"
proof -
  let ?P = "\<lambda>p. abs (comida_x c - fst p) < 20 \<and> abs (comida_y c - snd p) < 20"
  have "\<not> list_ex ?P (obstaculos g)" "\<not> list_ex ?P (serpiente g)"
    using assms by (simp_all only: conflicto_comida_def split_def de_Morgan_disj simp_thms)
  then have "\<forall>p \<in> set (obstaculos g). \<not> ?P p" "\<forall>p \<in> set (serpiente g). \<not> ?P p"
    by (simp_all only: list_ex_iff bex_simps)
  then show ?thesis
    by (simp only: split_def simp_thms)
qed

text \<open>
  C8. Whenever \<^verbatim>\<open>generar_nueva_comida\<close> returns, the food it has stored has both
  coordinates multiples of \<^verbatim>\<open>TAMANO_CELDA\<close>, and no obstacle and no snake segment present at
  the call is within the clearance of the source (both coordinate differences below 20);
  obstacles and snake are untouched. The loop returns as soon as the draws offer such a
  cell; the concrete run below rejects its first candidate and accepts the second.
\<close>

theorem generar_nueva_comida_despejada:
  assumes "generar_nueva_comida rs g = Inr (g', rs')"
  shows "\<exists>c. comida g' = Some c
           \<and> comida_x c mod TAMANO_CELDA = 0 \<and> comida_y c mod TAMANO_CELDA = 0
           \<and> (\<forall>(ox, oy) \<in> set (obstaculos g).
                 \<not> (abs (comida_x c - ox) < 20 \<and> abs (comida_y c - oy) < 20))
           \<and> (\<forall>(sx, sy) \<in> set (serpiente g).
                 \<not> (abs (comida_x c - sx) < 20 \<and> abs (comida_y c - sy) < 20))
           \<and> obstaculos g' = obstaculos g \<and> serpiente g' = serpiente g"
proof -
  from generar_nueva_comida_resultado [OF assms] obtain c where
    c: "g' = g\<lparr>comida := Some c\<rparr> \<and> \<not> conflicto_comida c g
      \<and> comida_x c mod TAMANO_CELDA = 0 \<and> comida_y c mod TAMANO_CELDA = 0"
    by (rule exE)
  from c have f: "comida g' = Some c" "obstaculos g' = obstaculos g"
     "serpiente g' = serpiente g"
    by simp_all
  from c have nc: "\<not> conflicto_comida c g" by (rule_tac conjunct1 [OF conjunct2])
  note sc = sin_conflicto_comida [OF nc]
  show ?thesis
  proof (intro exI [of _ c] conjI)
    show "comida g' = Some c" by (rule f(1))
    show "comida_x c mod TAMANO_CELDA = 0" using c by (simp only:)
    show "comida_y c mod TAMANO_CELDA = 0" using c by (simp only:)
    show "\<forall>(ox, oy) \<in> set (obstaculos g).
                 \<not> (abs (comida_x c - ox) < 20 \<and> abs (comida_y c - oy) < 20)"
      by (rule conjunct1 [OF sc])
    show "\<forall>(sx, sy) \<in> set (serpiente g).
                 \<not> (abs (comida_x c - sx) < 20 \<and> abs (comida_y c - sy) < 20)"
      by (rule conjunct2 [OF sc])
    show "obstaculos g' = obstaculos g" by (rule f(2))
    show "serpiente g' = serpiente g" by (rule f(3))
  qed
qed

lemma generar_comida_juego_tres:
  "generar_nueva_comida [320, 280, 0, 360, 300, 9] juego_tres
     = Inr (juego_tres\<lparr>comida := Some (Comida VENENOSA 80 20)\<rparr>, [])"
  by code_simp

theorem generar_nueva_comida_despejada_witness:
  "generar_nueva_comida [320, 280, 0, 360, 300, 9] juego_tres
     = Inr (juego_tres\<lparr>comida := Some (Comida VENENOSA 80 20)\<rparr>, [])
   \<and> (\<exists>c. comida (juego_tres\<lparr>comida := Some (Comida VENENOSA 80 20)\<rparr>) = Some c
           \<and> comida_x c mod TAMANO_CELDA = 0 \<and> comida_y c mod TAMANO_CELDA = 0
           \<and> (\<forall>(ox, oy) \<in> set (obstaculos juego_tres).
                 \<not> (abs (comida_x c - ox) < 20 \<and> abs (comida_y c - oy) < 20))
           \<and> (\<forall>(sx, sy) \<in> set (serpiente juego_tres).
                 \<not> (abs (comida_x c - sx) < 20 \<and> abs (comida_y c - sy) < 20))
           \<and> obstaculos (juego_tres\<lparr>comida := Some (Comida VENENOSA 80 20)\<rparr>)
               = obstaculos juego_tres
           \<and> serpiente (juego_tres\<lparr>comida := Some (Comida VENENOSA 80 20)\<rparr>)
               = serpiente juego_tres)"
  by (rule conjI [OF generar_comida_juego_tres
        generar_nueva_comida_despejada [OF generar_comida_juego_tres]])

section \<open>Level-up\<close>

lemma colocar_obstaculo_agrega:
  "colocar_obstaculo rs obs = Inr (obs', rs') \<Longrightarrow> \<exists>p. obs' = obs @ [p]"
proof (induction rs obs rule: colocar_obstaculo.induct)
  case (1 rx ry rs obs)
  let ?x = "alinear (randint (- 280) 280 rx)"
  let ?y = "alinear (randint (- 280) 280 ry)"
  let ?ok = "(abs ?x > 40 \<or> abs ?y > 40)
            \<and> \<not> list_ex (\<lambda>(ox, oy). abs (ox - ?x) < 40 \<and> abs (oy - ?y) < 40) obs"
  have eq: "colocar_obstaculo (rx # ry # rs) obs =
      (if ?ok then Inr (obs @ [(?x, ?y)], rs) else colocar_obstaculo rs obs)"
    by (simp only: colocar_obstaculo.simps Let_def)
  show ?case
  proof (cases ?ok)
    case True
    have "colocar_obstaculo (rx # ry # rs) obs = Inr (obs @ [(?x, ?y)], rs)"
      using eq if_P [OF True] by (rule trans)
    with "1.prems" have "obs' = obs @ [(?x, ?y)]"
      by (simp only: sum.inject prod.inject)
    then show ?thesis by blast
  next
    case False
    have "colocar_obstaculo (rx # ry # rs) obs = colocar_obstaculo rs obs"
      using eq if_not_P [OF False] by (rule trans)
    with "1.prems" have "colocar_obstaculo rs obs = Inr (obs', rs')"
      by (simp only:)
    with "1.IH" [OF refl refl refl refl False] show ?thesis .
  qed
qed simp_all

lemma colocar_obstaculos_agrega:
  "colocar_obstaculos n rs obs = Inr (obs', rs') \<Longrightarrow>
   \<exists>nuevos. obs' = obs @ nuevos \<and> length nuevos = n"
proof (induction n arbitrary: rs obs)
  case 0
  then show ?case by simp
next
  case (Suc n)
  from Suc.prems obtain o1 r1 where
    a: "colocar_obstaculo rs obs = Inr (o1, r1)" and
    b: "colocar_obstaculos n r1 o1 = Inr (obs', rs')"
    by (cases "colocar_obstaculo rs obs") auto
  from colocar_obstaculo_agrega[OF a] obtain p where p: "o1 = obs @ [p]" by blast
  from Suc.IH[OF b] obtain ns where ns: "obs' = o1 @ ns" "length ns = n" by blast
  show ?case
    using p ns by (intro exI[of _ "p # ns"]) simp
qed

lemma generar_obstaculos_agrega:
  assumes "generar_obstaculos rs g = Inr (g', rs')"
  shows "\<exists>nuevos. g' = g\<lparr>obstaculos := obstaculos g @ nuevos\<rparr>
      \<and> length nuevos = nat ((nivel g - 1) * 2)"
proof -
  from assms obtain obs where
    a: "colocar_obstaculos (nat ((nivel g - 1) * 2)) rs (obstaculos g) = Inr (obs, rs')"
    and b: "g' = g\<lparr>obstaculos := obs\<rparr>"
    by (cases "colocar_obstaculos (nat ((nivel g - 1) * 2)) rs (obstaculos g)")
       (auto simp: generar_obstaculos_def Let_def)
  from colocar_obstaculos_agrega[OF a] obtain ns where
    "obs = obstaculos g @ ns" "length ns = nat ((nivel g - 1) * 2)" by blast
  with b show ?thesis by (intro exI[of _ ns]) simp
qed

lemma verificar_subida_nivel_sube:
  assumes "nivel g < puntaje g div 50 + 1"
  shows "verificar_subida_nivel rs g =
     generar_obstaculos rs
       (mostrar_mensaje (MsgNivel (puntaje g div 50 + 1)) ''cyan''
          (g\<lparr>nivel := puntaje g div 50 + 1,
             velocidad_actual := VELOCIDAD_BASE + (puntaje g div 50 + 1 - 1) * 20\<rparr>))"
  using assms by (simp add: verificar_subida_nivel_def PUNTOS_POR_NIVEL_def Let_def)

lemma verificar_subida_nivel_queda:
  assumes "\<not> nivel g < puntaje g div 50 + 1"
  shows "verificar_subida_nivel rs g = Inr (g, rs)"
  using assms by (simp add: verificar_subida_nivel_def PUNTOS_POR_NIVEL_def Let_def)

lemma verificar_subida_nivel_efecto:
  assumes a: "nivel g < puntaje g div 50 + 1"
    and b: "verificar_subida_nivel rs g = Inr (g', rs')"
  shows "\<exists>nuevos. g' = g\<lparr>nivel := puntaje g div 50 + 1,
                          velocidad_actual := VELOCIDAD_BASE + (puntaje g div 50) * 20,
                          mensaje_actual := MsgNivel (puntaje g div 50 + 1),
                          tiempo_mensaje := 60,
                          color_mensaje := ''cyan'',
                          obstaculos := obstaculos g @ nuevos\<rparr>
           \<and> length nuevos = nat (2 * (puntaje g div 50))"
proof -
  let ?n = "puntaje g div 50 + 1"
  let ?g1 = "mostrar_mensaje (MsgNivel ?n) ''cyan''
               (g\<lparr>nivel := ?n, velocidad_actual := VELOCIDAD_BASE + (?n - 1) * 20\<rparr>)"
  from b have "generar_obstaculos rs ?g1 = Inr (g', rs')"
    by (simp only: verificar_subida_nivel_sube [OF a])
  from generar_obstaculos_agrega [OF this] obtain nuevos where
    n: "g' = ?g1\<lparr>obstaculos := obstaculos ?g1 @ nuevos\<rparr>
        \<and> length nuevos = nat ((nivel ?g1 - 1) * 2)"
    by (rule exE)
  have "g' = g\<lparr>nivel := puntaje g div 50 + 1,
                          velocidad_actual := VELOCIDAD_BASE + (puntaje g div 50) * 20,
                          mensaje_actual := MsgNivel (puntaje g div 50 + 1),
                          tiempo_mensaje := 60,
                          color_mensaje := ''cyan'',
                          obstaculos := obstaculos g @ nuevos\<rparr>"
    using n by (simp add: mostrar_mensaje_def)
  moreover have "length nuevos = nat (2 * (puntaje g div 50))"
    using n by (simp add: mostrar_mensaje_def mult.commute)
  ultimately show ?thesis by (intro exI [of _ nuevos] conjI)
qed

lemma verificar_comida_come:
  assumes "serpiente g = cabeza # cuerpo" and "comida g = Some c"
    and "distancia2 cabeza (comida_x c, comida_y c) < 15 * 15"
  shows "verificar_comida rs g =
     (case generar_nueva_comida rs (aplicar_efecto (tipo c) g) of
        Inl e \<Rightarrow> Inl e
      | Inr (g', rs') \<Rightarrow> verificar_subida_nivel rs' g')"
  using assms by (simp add: verificar_comida_def)

lemma alinear_randint:
  assumes "x mod 20 = 0" and "- 280 \<le> x" and "x \<le> 280"
  shows "alinear (randint (- 280) 280 (nat (x + 280))) = x"
proof -
  have "randint (- 280) 280 (nat (x + 280)) = x"
    using assms(2,3) by (simp add: randint_def)
  moreover have "x div 20 * 20 = x"
    using assms(1) by presburger
  then have "alinear x = x"
    using assms(1) by (simp add: alinear_def py_round_div_def TAMANO_CELDA_def Let_def)
  ultimately show ?thesis by simp
qed

lemma colocar_obstaculo_libre:
  assumes "celdas_libres (p # cs) obs"
  shows "colocar_obstaculo (nat (fst p + 280) # nat (snd p + 280) # rs) obs
           = Inr (obs @ [p], rs)"
proof -
  from assms have x: "alinear (randint (- 280) 280 (nat (fst p + 280))) = fst p"
    and y: "alinear (randint (- 280) 280 (nat (snd p + 280))) = snd p"
    by (simp_all add: alinear_randint)
  from assms have ok: "(abs (fst p) > 40 \<or> abs (snd p) > 40)
      \<and> \<not> list_ex (\<lambda>(ox, oy). abs (ox - fst p) < 40 \<and> abs (oy - snd p) < 40) obs"
    by simp
  have "colocar_obstaculo (nat (fst p + 280) # nat (snd p + 280) # rs) obs
      = (if (abs (fst p) > 40 \<or> abs (snd p) > 40)
            \<and> \<not> list_ex (\<lambda>(ox, oy). abs (ox - fst p) < 40 \<and> abs (oy - snd p) < 40) obs
         then Inr (obs @ [(fst p, snd p)], rs)
         else colocar_obstaculo rs obs)"
    by (simp only: colocar_obstaculo.simps Let_def x y)
  also have "\<dots> = Inr (obs @ [(fst p, snd p)], rs)"
    by (rule if_P [OF ok])
  finally show ?thesis by simp
qed

lemma colocar_obstaculos_libres:
  "celdas_libres cs obs \<Longrightarrow>
   colocar_obstaculos (length cs) (sorteo_celdas cs @ rs) obs = Inr (obs @ cs, rs)"
proof (induction cs arbitrary: obs)
  case Nil
  then show ?case by simp
next
  case (Cons p cs)
  from Cons.prems have r: "celdas_libres cs (obs @ [p])" by simp
  have "colocar_obstaculo (sorteo_celdas (p # cs) @ rs) obs
      = Inr (obs @ [p], sorteo_celdas cs @ rs)"
    using colocar_obstaculo_libre [OF Cons.prems, of "sorteo_celdas cs @ rs"] by simp
  then have "colocar_obstaculos (length (p # cs)) (sorteo_celdas (p # cs) @ rs) obs
      = colocar_obstaculos (length cs) (sorteo_celdas cs @ rs) (obs @ [p])"
    by simp
  also have "\<dots> = Inr ((obs @ [p]) @ cs, rs)"
    by (rule Cons.IH [OF r])
  finally show ?case by simp
qed

lemma verificar_subida_nivel_termina:
  assumes a: "nivel g < puntaje g div 50 + 1"
    and l: "celdas_libres cs (obstaculos g)"
    and n: "length cs = nat (2 * (puntaje g div 50))"
  shows "verificar_subida_nivel (sorteo_celdas cs @ rs) g =
     Inr (g\<lparr>nivel := puntaje g div 50 + 1,
            velocidad_actual := VELOCIDAD_BASE + (puntaje g div 50) * 20,
            mensaje_actual := MsgNivel (puntaje g div 50 + 1),
            tiempo_mensaje := 60,
            color_mensaje := ''cyan'',
            obstaculos := obstaculos g @ cs\<rparr>, rs)"
proof -
  have k: "nat (puntaje g div 50 * 2) = length cs"
    using n by (simp add: mult.commute)
  show ?thesis
    unfolding verificar_subida_nivel_sube [OF a]
    by (simp add: generar_obstaculos_def mostrar_mensaje_def Let_def k
        colocar_obstaculos_libres [OF l])
qed

text \<open>
  C5. \<^verbatim>\<open>verificar_subida_nivel\<close> computes \<open>puntaje div 50 + 1\<close>. If that exceeds the level,
  every result of the call has the level raised to it, the speed
  \<open>VELOCIDAD_BASE + (nivel - 1) * 20\<close>, the level message, and \<open>2 * (nivel - 1)\<close> obstacles
  appended to the old ones; otherwise the call returns the state unchanged. From 49 points
  at level 1, eating a Fit food gives 50 points, level 2, speed \<open>VELOCIDAD_BASE + 20\<close> and
  two more obstacles. The call does return, with exactly that state, when the draws offer
  enough free cells (last part).
\<close>

theorem verificar_subida_nivel_regla:
  "(nivel g < puntaje g div 50 + 1 \<longrightarrow>
      (\<forall>g' rs'. verificar_subida_nivel rs g = Inr (g', rs') \<longrightarrow>
         nivel g' = puntaje g div 50 + 1
         \<and> velocidad_actual g' = VELOCIDAD_BASE + (nivel g' - 1) * 20
         \<and> mensaje_actual g' = MsgNivel (nivel g')
         \<and> (\<exists>nuevos. obstaculos g' = obstaculos g @ nuevos
               \<and> length nuevos = nat (2 * (nivel g' - 1)))))
   \<and> (\<not> nivel g < puntaje g div 50 + 1 \<longrightarrow> verificar_subida_nivel rs g = Inr (g, rs))
   \<and> (puntaje g = 49 \<and> nivel g = 1 \<and> serpiente g = cabeza # cuerpo
        \<and> comida g = Some c \<and> tipo c = FIT
        \<and> distancia2 cabeza (comida_x c, comida_y c) < 15 * 15 \<longrightarrow>
      (\<forall>g' rs'. verificar_comida rs g = Inr (g', rs') \<longrightarrow>
         puntaje g' = 50 \<and> nivel g' = 2 \<and> velocidad_actual g' = VELOCIDAD_BASE + 20
         \<and> mensaje_actual g' = MsgNivel 2
         \<and> length (obstaculos g') = length (obstaculos g) + 2))
   \<and> (nivel g < puntaje g div 50 + 1 \<and> celdas_libres cs (obstaculos g)
        \<and> length cs = nat (2 * (puntaje g div 50)) \<longrightarrow>
      verificar_subida_nivel (sorteo_celdas cs @ rs) g =
        Inr (g\<lparr>nivel := puntaje g div 50 + 1,
               velocidad_actual := VELOCIDAD_BASE + (puntaje g div 50) * 20,
               mensaje_actual := MsgNivel (puntaje g div 50 + 1),
               tiempo_mensaje := 60,
               color_mensaje := ''cyan'',
               obstaculos := obstaculos g @ cs\<rparr>, rs))"
proof (intro conjI impI allI)
  fix g' rs'
  assume a: "nivel g < puntaje g div 50 + 1"
    and b: "verificar_subida_nivel rs g = Inr (g', rs')"
  from verificar_subida_nivel_efecto [OF a b] obtain nuevos where
    n: "g' = g\<lparr>nivel := puntaje g div 50 + 1,
                          velocidad_actual := VELOCIDAD_BASE + (puntaje g div 50) * 20,
                          mensaje_actual := MsgNivel (puntaje g div 50 + 1),
                          tiempo_mensaje := 60,
                          color_mensaje := ''cyan'',
                          obstaculos := obstaculos g @ nuevos\<rparr>
           \<and> length nuevos = nat (2 * (puntaje g div 50))"
    by (rule exE)
  from n show "nivel g' = puntaje g div 50 + 1" by simp
  from n show "velocidad_actual g' = VELOCIDAD_BASE + (nivel g' - 1) * 20" by simp
  from n show "mensaje_actual g' = MsgNivel (nivel g')" by simp
  from n show "\<exists>nuevos. obstaculos g' = obstaculos g @ nuevos
                 \<and> length nuevos = nat (2 * (nivel g' - 1))"
    by (intro exI [of _ nuevos]) simp
next
  assume "\<not> nivel g < puntaje g div 50 + 1"
  then show "verificar_subida_nivel rs g = Inr (g, rs)"
    by (rule verificar_subida_nivel_queda)
next
  fix g' rs'
  assume a: "puntaje g = 49 \<and> nivel g = 1 \<and> serpiente g = cabeza # cuerpo
        \<and> comida g = Some c \<and> tipo c = FIT
        \<and> distancia2 cabeza (comida_x c, comida_y c) < 15 * 15"
    and b: "verificar_comida rs g = Inr (g', rs')"
  from a have s: "serpiente g = cabeza # cuerpo" and co: "comida g = Some c"
    and d: "distancia2 cabeza (comida_x c, comida_y c) < 15 * 15" and t: "tipo c = FIT"
    and p: "puntaje g = 49" and l: "nivel g = 1"
    by simp_all
  note vc = verificar_comida_come [OF s co d, of rs, unfolded t]
  obtain g1 r1 where
    g1: "generar_nueva_comida rs (aplicar_efecto FIT g) = Inr (g1, r1)" and
    g': "verificar_subida_nivel r1 g1 = Inr (g', rs')"
  proof (cases "generar_nueva_comida rs (aplicar_efecto FIT g)")
    case (Inl e)
    with vc b show ?thesis by simp
  next
    case (Inr r)
    with vc b that show ?thesis by (cases r) simp
  qed
  from generar_nueva_comida_resultado [OF g1] obtain c' where
    c': "g1 = (aplicar_efecto FIT g)\<lparr>comida := Some c'\<rparr> \<and> \<not> conflicto_comida c' (aplicar_efecto FIT g)
      \<and> comida_x c' mod TAMANO_CELDA = 0 \<and> comida_y c' mod TAMANO_CELDA = 0"
    by (rule exE)
  have q: "puntaje g1 = 50" "nivel g1 = 1" "obstaculos g1 = obstaculos g"
    using c' p l by (simp_all add: mostrar_mensaje_def crecer_serpiente_def)
  have lt: "nivel g1 < puntaje g1 div 50 + 1" using q by simp
  from verificar_subida_nivel_efecto [OF lt g'] obtain nuevos where
    n: "g' = g1\<lparr>nivel := puntaje g1 div 50 + 1,
                          velocidad_actual := VELOCIDAD_BASE + (puntaje g1 div 50) * 20,
                          mensaje_actual := MsgNivel (puntaje g1 div 50 + 1),
                          tiempo_mensaje := 60,
                          color_mensaje := ''cyan'',
                          obstaculos := obstaculos g1 @ nuevos\<rparr>
           \<and> length nuevos = nat (2 * (puntaje g1 div 50))"
    by (rule exE)
  from n q show "puntaje g' = 50" by simp
  from n q show "nivel g' = 2" by simp
  from n q show "velocidad_actual g' = VELOCIDAD_BASE + 20" by simp
  from n q show "mensaje_actual g' = MsgNivel 2" by simp
  from n q show "length (obstaculos g') = length (obstaculos g) + 2" by simp
next
  assume "nivel g < puntaje g div 50 + 1 \<and> celdas_libres cs (obstaculos g)
        \<and> length cs = nat (2 * (puntaje g div 50))"
  then show "verificar_subida_nivel (sorteo_celdas cs @ rs) g =
        Inr (g\<lparr>nivel := puntaje g div 50 + 1,
               velocidad_actual := VELOCIDAD_BASE + (puntaje g div 50) * 20,
               mensaje_actual := MsgNivel (puntaje g div 50 + 1),
               tiempo_mensaje := 60,
               color_mensaje := ''cyan'',
               obstaculos := obstaculos g @ cs\<rparr>, rs)"
    by (intro verificar_subida_nivel_termina) simp_all
qed

lemma verificar_comida_juego_49:
  "verificar_comida [320, 280, 0, 180, 180, 80, 80] juego_49 = Inr (juego_50, [])"
  by code_simp

lemma subida_juego_49:
  "verificar_subida_nivel [180, 180, 80, 80] (juego_49\<lparr>puntaje := 50\<rparr>)
     = Inr (juego_50\<lparr>serpiente := [(20, 0)], comida := Some (Comida FIT 20 0)\<rparr>, [])"
  by code_simp

theorem verificar_subida_nivel_regla_witness:
  "nivel (juego_49\<lparr>puntaje := 50\<rparr>) < puntaje (juego_49\<lparr>puntaje := 50\<rparr>) div 50 + 1
   \<and> verificar_subida_nivel [180, 180, 80, 80] (juego_49\<lparr>puntaje := 50\<rparr>)
       = Inr (juego_50\<lparr>serpiente := [(20, 0)], comida := Some (Comida FIT 20 0)\<rparr>, [])
   \<and> nivel juego_50 = 2 \<and> velocidad_actual juego_50 = VELOCIDAD_BASE + 20
   \<and> \<not> nivel juego_49 < puntaje juego_49 div 50 + 1
   \<and> verificar_subida_nivel [] juego_49 = Inr (juego_49, [])
   \<and> puntaje juego_49 = 49 \<and> nivel juego_49 = 1
   \<and> verificar_comida [320, 280, 0, 180, 180, 80, 80] juego_49 = Inr (juego_50, [])
   \<and> puntaje juego_50 = 50
   \<and> length (obstaculos juego_50) = length (obstaculos juego_49) + 2
   \<and> celdas_libres [(- 100, - 100), (- 200, - 200)] (obstaculos (juego_49\<lparr>puntaje := 50\<rparr>))
   \<and> verificar_subida_nivel (sorteo_celdas [(- 100, - 100), (- 200, - 200)] @ [])
         (juego_49\<lparr>puntaje := 50\<rparr>)
       = Inr (juego_50\<lparr>serpiente := [(20, 0)], comida := Some (Comida FIT 20 0)\<rparr>, [])"
proof -
  let ?cs = "[(- 100, - 100), (- 200, - 200)] :: (int \<times> int) list"
  have a: "puntaje juego_49 = 49 \<and> nivel juego_49 = 1 \<and> serpiente juego_49 = (20, 0) # []
        \<and> comida juego_49 = Some (Comida FIT 20 0) \<and> tipo (Comida FIT 20 0) = FIT
        \<and> distancia2 (20, 0) (comida_x (Comida FIT 20 0), comida_y (Comida FIT 20 0)) < 15 * 15"
    by (simp add: juego_49_def juego_nuevo_def distancia2_def)
  have b: "\<not> nivel juego_49 < puntaje juego_49 div 50 + 1"
    by (simp add: juego_49_def juego_nuevo_def)
  have c: "nivel (juego_49\<lparr>puntaje := 50\<rparr>) < puntaje (juego_49\<lparr>puntaje := 50\<rparr>) div 50 + 1"
    by (simp add: juego_49_def juego_nuevo_def)
  have d: "celdas_libres ?cs (obstaculos (juego_49\<lparr>puntaje := 50\<rparr>))"
    by (simp add: juego_49_def juego_nuevo_def)
  have e: "length ?cs = nat (2 * (puntaje (juego_49\<lparr>puntaje := 50\<rparr>) div 50))"
    by simp
  note r1 = verificar_subida_nivel_regla
    [of juego_49 "[320, 280, 0, 180, 180, 80, 80]" "(20, 0)" "[]" "Comida FIT 20 0" "[]"]
  note r2 = verificar_subida_nivel_regla
    [of "juego_49\<lparr>puntaje := 50\<rparr>" "[]" "(20, 0)" "[]" "Comida FIT 20 0" ?cs]
  note r3 = verificar_subida_nivel_regla
    [of juego_49 "[]" "(20, 0)" "[]" "Comida FIT 20 0" "[]"]
  from r1 a verificar_comida_juego_49 have f:
    "puntaje juego_50 = 50 \<and> nivel juego_50 = 2
      \<and> velocidad_actual juego_50 = VELOCIDAD_BASE + 20
      \<and> length (obstaculos juego_50) = length (obstaculos juego_49) + 2"
    by blast
  from r3 b have g: "verificar_subida_nivel [] juego_49 = Inr (juego_49, [])"
    by blast
  from r2 c d e have
    "verificar_subida_nivel (sorteo_celdas ?cs @ []) (juego_49\<lparr>puntaje := 50\<rparr>) =
        Inr ((juego_49\<lparr>puntaje := 50\<rparr>)
               \<lparr>nivel := puntaje (juego_49\<lparr>puntaje := 50\<rparr>) div 50 + 1,
               velocidad_actual :=
                 VELOCIDAD_BASE + (puntaje (juego_49\<lparr>puntaje := 50\<rparr>) div 50) * 20,
               mensaje_actual := MsgNivel (puntaje (juego_49\<lparr>puntaje := 50\<rparr>) div 50 + 1),
               tiempo_mensaje := 60,
               color_mensaje := ''cyan'',
               obstaculos := obstaculos (juego_49\<lparr>puntaje := 50\<rparr>) @ ?cs\<rparr>, [])"
    by blast
  then have h: "verificar_subida_nivel (sorteo_celdas ?cs @ []) (juego_49\<lparr>puntaje := 50\<rparr>)
       = Inr (juego_50\<lparr>serpiente := [(20, 0)], comida := Some (Comida FIT 20 0)\<rparr>, [])"
    by (simp add: juego_49_def juego_50_def juego_nuevo_def VELOCIDAD_BASE_def)
  from f have f1: "puntaje juego_50 = 50" and f2: "nivel juego_50 = 2"
    and f3: "velocidad_actual juego_50 = VELOCIDAD_BASE + 20"
    and f4: "length (obstaculos juego_50) = length (obstaculos juego_49) + 2"
    by simp_all
  from a have a1: "puntaje juego_49 = 49" and a2: "nivel juego_49 = 1" by simp_all
  from c subida_juego_49 f2 f3 b g a1 a2 verificar_comida_juego_49 f1 f4 d h
  show ?thesis by (intro conjI)
qed

section \<open>The concrete play-through\<close>

lemma construir_juego_nuevo: "JuegoSnake [300, 280, 7] = Inr (juego_nuevo, [])"
  by code_simp

lemma vida_1a: "ejecutar_turnos (replicate 10 []) sorteo_1 juego_nuevo = Inr (estado_10, [])"
  by code_simp

lemma vida_1b: "ejecutar_turnos (replicate 3 []) [] estado_10 = Inr (estado_13, [])"
  by code_simp

lemma vida_1c: "ejecutar_paso [] [] estado_13 = Inr (estado_14, [])"
  by code_simp

lemma vida_1d: "ejecutar_paso [] [] estado_14 = Inr (estado_15, [])"
  by code_simp

lemma vida_1e: "ejecutar_paso [] sorteo_muerte_1 estado_15 = Inr (estado_16, [])"
  by code_simp

lemma vida_2: "ejecutar_turnos (replicate 16 []) sorteo_2 estado_16 = Inr (estado_32, [])"
  by code_simp

lemma vida_3: "ejecutar_turnos (replicate 16 []) sorteo_3 estado_32 = Inr (estado_48, [])"
  by code_simp

lemma vida_4: "ejecutar_turnos (replicate 16 []) sorteo_4 estado_48 = Inr (estado_64, [])"
  by code_simp

lemma vida_5: "ejecutar_turnos (replicate 16 []) sorteo_5 estado_64 = Inr (estado_80, [])"
  by code_simp

lemma vida_6: "ejecutar_turnos (replicate 14 []) sorteo_6 estado_80 = Inr (estado_94, [])"
  by code_simp

lemma vida_7: "ejecutar_paso [''arriba''] sorteo_7 estado_94 = Inr (estado_95, [])"
  by code_simp

lemma construir_con_sorteo:
  "JuegoSnake ([300, 280, 7] @ sorteo_1) = Inr (juego_nuevo, sorteo_1)"
  by code_simp

lemma game_over_estado_15: "game_over sorteo_muerte_1 estado_15 = Inr (estado_16, [])"
  by code_simp

lemma paso_juego_veneno:
  "ejecutar_paso [] [280, 480, 0] juego_veneno
     = Inr (juego_veneno\<lparr>serpiente := [(80, 0), (60, 0)], comida := Some (Comida FIT 0 200),
                         mensaje_actual := MsgVenenosa, color_mensaje := ''purple'',
                         tiempo_mensaje := 59\<rparr>, [])"
  by code_simp

lemma paso_sube_nivel:
  "ejecutar_paso [] [320, 280, 0, 180, 180, 80, 80] (juego_49\<lparr>serpiente := [(0, 0)]\<rparr>)
     = Inr (juego_50\<lparr>tiempo_mensaje := 59\<rparr>, [])"
  by code_simp

lemma alcanzable_turnos:
  "alcanzable g \<Longrightarrow> list_all teclas_validas turnos \<Longrightarrow>
   ejecutar_turnos turnos rs g = Inr (g', rs') \<Longrightarrow> alcanzable g'"
proof (induction turnos arbitrary: g rs)
  case Nil
  then show ?case by simp
next
  case (Cons teclas resto)
  from Cons.prems(3) obtain g1 r1 where
    p: "ejecutar_paso teclas rs g = Inr (g1, r1)" and
    r: "ejecutar_turnos resto r1 g1 = Inr (g', rs')"
    by (cases "ejecutar_paso teclas rs g") auto
  from Cons.prems(2) have v: "teclas_validas teclas" "list_all teclas_validas resto"
    by simp_all
  from alcanzable.turno [OF Cons.prems(1) v(1) p] have "alcanzable g1" .
  from Cons.IH [OF this v(2) r] show ?case .
qed

lemma sin_teclas_validas: "teclas_validas []"
  by (simp add: teclas_validas_def)

lemma turnos_sin_teclas_validos: "list_all teclas_validas (replicate n [])"
  by (induction n) (simp_all add: sin_teclas_validas)

lemma alcanzable_juego_nuevo: "alcanzable juego_nuevo"
  by (rule alcanzable.inicio [OF construir_juego_nuevo])

lemma alcanzable_estado_10: "alcanzable estado_10"
  by (rule alcanzable_turnos [OF alcanzable_juego_nuevo turnos_sin_teclas_validos vida_1a])

lemma alcanzable_estado_13: "alcanzable estado_13"
  by (rule alcanzable_turnos [OF alcanzable_estado_10 turnos_sin_teclas_validos vida_1b])

lemma alcanzable_estado_14: "alcanzable estado_14"
  by (rule alcanzable.turno [OF alcanzable_estado_13 sin_teclas_validas vida_1c])

lemma alcanzable_estado_15: "alcanzable estado_15"
  by (rule alcanzable.turno [OF alcanzable_estado_14 sin_teclas_validas vida_1d])

lemma alcanzable_estado_16: "alcanzable estado_16"
  by (rule alcanzable.turno [OF alcanzable_estado_15 sin_teclas_validas vida_1e])

lemma alcanzable_estado_32: "alcanzable estado_32"
  by (rule alcanzable_turnos [OF alcanzable_estado_16 turnos_sin_teclas_validos vida_2])

lemma alcanzable_estado_48: "alcanzable estado_48"
  by (rule alcanzable_turnos [OF alcanzable_estado_32 turnos_sin_teclas_validos vida_3])

lemma alcanzable_estado_64: "alcanzable estado_64"
  by (rule alcanzable_turnos [OF alcanzable_estado_48 turnos_sin_teclas_validos vida_4])

lemma alcanzable_estado_80: "alcanzable estado_80"
  by (rule alcanzable_turnos [OF alcanzable_estado_64 turnos_sin_teclas_validos vida_5])

lemma alcanzable_estado_94: "alcanzable estado_94"
  by (rule alcanzable_turnos [OF alcanzable_estado_80 turnos_sin_teclas_validos vida_6])

lemma arriba_valida: "teclas_validas [''arriba'']"
  by (simp add: teclas_validas_def)

lemma alcanzable_estado_95: "alcanzable estado_95"
  by (rule alcanzable.turno [OF alcanzable_estado_94 arriba_valida vida_7])

section \<open>Expiry of a temporary effect\<close>

text \<open>
  C1 (the program departs from the claim). When the counter of the active effect reaches
  zero, \<^verbatim>\<open>actualizar_efectos_temporales\<close> clears the effect and stores \<^verbatim>\<open>VELOCIDAD_BASE\<close>,
  whatever the level. In the reachable state \<open>estado_13\<close> (level 2, one tick of the
  effect left) the decay leaves the speed at 150, while the value for the level,
  \<open>VELOCIDAD_BASE + (nivel - 1) * 20\<close>, is 170; the turn from \<open>estado_13\<close> ends in
  \<open>estado_14\<close> with exactly that speed.
\<close>

theorem expiracion_restaura_base_global:
  "alcanzable estado_13
   \<and> nivel estado_13 = 2
   \<and> efecto_temporal estado_13 = Some \<lparr>efecto_tipo = ''rapido'', duracion = 1\<rparr>
   \<and> velocidad_actual (actualizar_efectos_temporales estado_13) = 150
   \<and> efecto_temporal (actualizar_efectos_temporales estado_13) = None
   \<and> VELOCIDAD_BASE + (nivel (actualizar_efectos_temporales estado_13) - 1) * 20 = 170
   \<and> ejecutar_paso [] [] estado_13 = Inr (estado_14, [])
   \<and> nivel estado_14 = 2 \<and> efecto_temporal estado_14 = None
   \<and> velocidad_actual estado_14 = 150"
proof -
  have "nivel estado_13 = 2"
    "efecto_temporal estado_13 = Some \<lparr>efecto_tipo = ''rapido'', duracion = 1\<rparr>"
    "velocidad_actual (actualizar_efectos_temporales estado_13) = 150"
    "efecto_temporal (actualizar_efectos_temporales estado_13) = None"
    "VELOCIDAD_BASE + (nivel (actualizar_efectos_temporales estado_13) - 1) * 20 = 170"
    "nivel estado_14 = 2" "efecto_temporal estado_14 = None"
    "velocidad_actual estado_14 = 150"
    by (simp_all add: estado_13_def estado_14_def actualizar_efectos_temporales_def
        VELOCIDAD_BASE_def)
  with alcanzable_estado_13 vida_1c show ?thesis by simp
qed

section \<open>Concrete refutations\<close>

text \<open>
  C2, as stated, fails: the death-reset of the reachable state \<open>estado_15\<close> (level 2)
  replaces the two obstacles of the first life by two newly drawn ones.
\<close>

theorem reinicio_regenera_obstaculos_contraejemplo:
  "alcanzable estado_15
   \<and> game_over sorteo_muerte_1 estado_15 = Inr (estado_16, [])
   \<and> obstaculos estado_15 = [(- 280, - 280), (- 240, - 280)]
   \<and> obstaculos estado_16 = [(- 200, - 280), (- 160, - 280)]
   \<and> set (obstaculos estado_16) \<noteq> set (obstaculos estado_15)"
proof -
  note g = game_over_estado_15
  have "obstaculos estado_15 = [(- 280, - 280), (- 240, - 280)]"
    "obstaculos estado_16 = [(- 200, - 280), (- 160, - 280)]"
    by (simp_all add: estado_15_def estado_16_def)
  moreover have "(- 200, - 280) \<in> set (obstaculos estado_16)"
    "(- 200, - 280) \<notin> set (obstaculos estado_15)"
    by (simp_all add: estado_15_def estado_16_def)
  then have "set (obstaculos estado_16) \<noteq> set (obstaculos estado_15)"
    by blast
  ultimately show ?thesis using alcanzable_estado_15 g by simp
qed

text \<open>
  C7, as stated, fails: the turn from \<open>estado_15\<close> is a death-reset; it eats nothing
  (the live food is a Fit food far away) and takes the snake from eleven segments to one.
\<close>

theorem reinicio_acorta_serpiente_contraejemplo:
  "alcanzable estado_15
   \<and> ejecutar_paso [] sorteo_muerte_1 estado_15 = Inr (estado_16, [])
   \<and> length (serpiente estado_15) = 11
   \<and> comida estado_15 = Some (Comida FIT 0 200)
   \<and> length (serpiente estado_16) = 1
   \<and> length (serpiente estado_16) < length (serpiente estado_15)"
proof -
  have "length (serpiente estado_15) = 11" "comida estado_15 = Some (Comida FIT 0 200)"
    "length (serpiente estado_16) = 1"
    by (simp_all add: estado_15_def estado_16_def)
  with alcanzable_estado_15 vida_1e show ?thesis by simp
qed

text \<open>
  C4, as stated, fails at \<open>N = 1\<close>: ten turns without a death from the constructed state
  raise the level once and leave two obstacles, where \<open>2 * (0 + ... + (N - 1))\<close> is zero.
\<close>

theorem obstaculos_tras_una_subida_contraejemplo:
  "JuegoSnake ([300, 280, 7] @ sorteo_1) = Inr (juego_nuevo, sorteo_1)
   \<and> ejecutar_turnos (replicate 10 []) sorteo_1 juego_nuevo = Inr (estado_10, [])
   \<and> vivos (replicate 10 []) sorteo_1 juego_nuevo
   \<and> subidas (replicate 10 []) sorteo_1 juego_nuevo = 1
   \<and> length (obstaculos estado_10) = 2
   \<and> length (obstaculos estado_10)
       \<noteq> 2 * sum_list [0 ..< subidas (replicate 10 []) sorteo_1 juego_nuevo]"
proof -
  have v: "vivos (replicate 10 []) sorteo_1 juego_nuevo"
    by code_simp
  have s: "subidas (replicate 10 []) sorteo_1 juego_nuevo = 1"
    by code_simp
  have l: "length (obstaculos estado_10) = 2"
    by (simp add: estado_10_def)
  have "length (obstaculos estado_10)
       \<noteq> 2 * sum_list [0 ..< subidas (replicate 10 []) sorteo_1 juego_nuevo]"
    by (simp add: s l)
  with construir_con_sorteo vida_1a v s l show ?thesis by simp
qed

text \<open>
  C3, as stated, fails in both parts. In the reachable state \<open>estado_94\<close> (level 9) the
  speed is 310, and a Fit food leaves it there (\<open>estado_95\<close> is the state after the turn
  that eats one). In the reachable state \<open>estado_14\<close> (level 2) no effect is active, the
  last turn ate nothing, and the speed is 150, not \<open>VELOCIDAD_BASE + (nivel - 1) * 20\<close>.
\<close>

theorem velocidad_fuera_de_rango_contraejemplo:
  "alcanzable estado_94
   \<and> nivel estado_94 = 9
   \<and> velocidad_actual (aplicar_efecto FIT estado_94) = 310
   \<and> \<not> velocidad_actual (aplicar_efecto FIT estado_94) \<le> 300
   \<and> alcanzable estado_95 \<and> velocidad_actual estado_95 = 310
   \<and> alcanzable estado_14
   \<and> efecto_temporal estado_14 = None
   \<and> nivel estado_14 = 2
   \<and> velocidad_actual estado_14 = 150
   \<and> velocidad_actual estado_14 \<noteq> VELOCIDAD_BASE + (nivel estado_14 - 1) * 20"
proof -
  have "nivel estado_94 = 9" "velocidad_actual (aplicar_efecto FIT estado_94) = 310"
    "velocidad_actual estado_95 = 310"
    "efecto_temporal estado_14 = None" "nivel estado_14 = 2"
    "velocidad_actual estado_14 = 150"
    by (simp_all add: estado_94_def estado_95_def estado_14_def mostrar_mensaje_def
        crecer_serpiente_def)
  with alcanzable_estado_94 alcanzable_estado_95 alcanzable_estado_14 show ?thesis
    by (simp add: VELOCIDAD_BASE_def)
qed

section \<open>The structure of a turn\<close>

lemma cambiar_direccion_campo: "\<exists>d. cambiar_direccion k g = g\<lparr>direccion := d\<rparr>"
  by (simp add: cambiar_direccion_def) (metis juego.update_convs(4) juego.surjective)

lemma atender_teclas_campo: "\<exists>d. atender_teclas teclas g = g\<lparr>direccion := d\<rparr>"
proof (induction teclas arbitrary: g)
  case Nil
  have "g = g\<lparr>direccion := direccion g\<rparr>" by simp
  then show ?case unfolding atender_teclas_def foldl_Nil by (rule exI)
next
  case (Cons k ks)
  obtain d1 where d1: "cambiar_direccion k g = g\<lparr>direccion := d1\<rparr>"
    using cambiar_direccion_campo by blast
  obtain d where d: "atender_teclas ks (g\<lparr>direccion := d1\<rparr>) = g\<lparr>direccion := d1\<rparr>\<lparr>direccion := d\<rparr>"
    using Cons.IH by blast
  have "atender_teclas (k # ks) g = atender_teclas ks (cambiar_direccion k g)"
    by (simp add: atender_teclas_def)
  also have "\<dots> = g\<lparr>direccion := d\<rparr>"
    by (simp add: d1 d)
  finally show ?case by (rule exI)
qed

lemma mover_serpiente_campo:
  assumes "mover_serpiente g = Inr g1"
  shows "\<exists>s'. g1 = g\<lparr>serpiente := s'\<rparr> \<and> length s' = length (serpiente g)
            \<and> serpiente g \<noteq> []"
proof (cases "serpiente g")
  case Nil
  with assms show ?thesis by (simp add: mover_serpiente_def)
next
  case (Cons c cs)
  let ?s' = "(seguir (length (serpiente g) - 1) (serpiente g))[0 := paso_cabeza (direccion g) c]"
  from assms Cons have "g1 = g\<lparr>serpiente := ?s'\<rparr>"
    by (simp add: mover_serpiente_def)
  moreover have "length ?s' = length (serpiente g)"
    by (simp add: seguir_length)
  moreover have "serpiente g \<noteq> []" using Cons by simp
  ultimately show ?thesis by (intro exI [of _ ?s'] conjI)
qed

lemma verificar_comida_casos:
  assumes "verificar_comida rs g1 = Inr (g2, rs2)"
  shows "(g2 = g1 \<and> rs2 = rs)
       \<or> (\<exists>c c' r1. comida g1 = Some c
             \<and> distancia2 (hd (serpiente g1)) (comida_x c, comida_y c) < 15 * 15
             \<and> verificar_subida_nivel r1 ((aplicar_efecto (tipo c) g1)\<lparr>comida := Some c'\<rparr>)
                 = Inr (g2, rs2))"
proof (cases "serpiente g1")
  case Nil
  with assms show ?thesis by (simp add: verificar_comida_def)
next
  case (Cons cabeza cuerpo)
  show ?thesis
  proof (cases "comida g1")
    case None
    with assms Cons show ?thesis by (simp add: verificar_comida_def)
  next
    case (Some c)
    show ?thesis
    proof (cases "distancia2 cabeza (comida_x c, comida_y c) < 15 * 15")
      case False
      with assms Cons Some have "g2 = g1 \<and> rs2 = rs"
        by (simp add: verificar_comida_def)
      then show ?thesis by (rule disjI1)
    next
      case True
      note vc = verificar_comida_come [OF Cons Some True, of rs]
      obtain ga r1 where
        ga: "generar_nueva_comida rs (aplicar_efecto (tipo c) g1) = Inr (ga, r1)" and
        g2: "verificar_subida_nivel r1 ga = Inr (g2, rs2)"
      proof (cases "generar_nueva_comida rs (aplicar_efecto (tipo c) g1)")
        case (Inl e)
        with vc assms show ?thesis by simp
      next
        case (Inr r)
        with vc assms that show ?thesis by (cases r) simp
      qed
      from generar_nueva_comida_resultado [OF ga] obtain c' where
        c': "ga = (aplicar_efecto (tipo c) g1)\<lparr>comida := Some c'\<rparr>
          \<and> \<not> conflicto_comida c' (aplicar_efecto (tipo c) g1)
          \<and> comida_x c' mod TAMANO_CELDA = 0 \<and> comida_y c' mod TAMANO_CELDA = 0"
        by (rule exE)
      from c' have e: "ga = (aplicar_efecto (tipo c) g1)\<lparr>comida := Some c'\<rparr>"
        by (rule conjunct1)
      have h: "distancia2 (hd (serpiente g1)) (comida_x c, comida_y c) < 15 * 15"
        using True Cons by simp
      have "comida g1 = Some c
             \<and> distancia2 (hd (serpiente g1)) (comida_x c, comida_y c) < 15 * 15
             \<and> verificar_subida_nivel r1 ((aplicar_efecto (tipo c) g1)\<lparr>comida := Some c'\<rparr>)
                 = Inr (g2, rs2)"
        using Some h g2 e by simp
      then show ?thesis by (intro disjI2 exI [of _ c] exI [of _ c'] exI [of _ r1])
    qed
  qed
qed

lemma verificar_subida_nivel_casos:
  assumes "verificar_subida_nivel rs g = Inr (g', rs')"
  shows "(\<not> nivel g < puntaje g div 50 + 1 \<and> g' = g)
       \<or> (nivel g < puntaje g div 50 + 1
           \<and> (\<exists>nuevos. g' = g\<lparr>nivel := puntaje g div 50 + 1,
                          velocidad_actual := VELOCIDAD_BASE + (puntaje g div 50) * 20,
                          mensaje_actual := MsgNivel (puntaje g div 50 + 1),
                          tiempo_mensaje := 60,
                          color_mensaje := ''cyan'',
                          obstaculos := obstaculos g @ nuevos\<rparr>
                 \<and> length nuevos = nat (2 * (puntaje g div 50))))"
proof (cases "nivel g < puntaje g div 50 + 1")
  case True
  from verificar_subida_nivel_efecto [OF True assms] True show ?thesis
    by (intro disjI2 conjI)
next
  case False
  from assms verificar_subida_nivel_queda [OF False, of rs] have "g' = g" by simp
  with False show ?thesis by (intro disjI1 conjI)
qed

lemma paso_muere:
  assumes "muere (atender_teclas teclas g)"
  shows "ejecutar_paso teclas rs g = game_over rs (atender_teclas teclas g)"
proof (cases "verificar_colisiones (atender_teclas teclas g) = Inr True")
  case True
  then show ?thesis by (simp add: ejecutar_paso_def Let_def)
next
  case False
  with assms have o: "verificar_colision_obstaculos (atender_teclas teclas g) = Inr True"
    by (simp add: muere_def)
  then obtain c cs where s: "serpiente (atender_teclas teclas g) = c # cs"
    by (cases "serpiente (atender_teclas teclas g)")
       (simp_all add: verificar_colision_obstaculos_def)
  have "\<exists>b. verificar_colisiones (atender_teclas teclas g) = Inr b"
    by (cases c) (auto simp: verificar_colisiones_def s)
  then obtain b where b: "verificar_colisiones (atender_teclas teclas g) = Inr b"
    by (rule exE)
  with False have "b = False" by simp
  with b o show ?thesis by (simp add: ejecutar_paso_def Let_def)
qed

lemma paso_vivo:
  assumes "\<not> muere (atender_teclas teclas g)"
    and "ejecutar_paso teclas rs g = Inr (g', rs')"
  shows "\<exists>g1 g2. mover_serpiente (atender_teclas teclas g) = Inr g1
           \<and> verificar_comida rs g1 = Inr (g2, rs')
           \<and> g' = actualizar_pantalla (actualizar_efectos_temporales g2)"
proof -
  let ?g = "atender_teclas teclas g"
  from assms(1) have n: "verificar_colisiones ?g \<noteq> Inr True"
    "verificar_colision_obstaculos ?g \<noteq> Inr True"
    by (simp_all add: muere_def)
  have c: "verificar_colisiones ?g = Inr False"
  proof (cases "verificar_colisiones ?g")
    case (Inl e)
    with assms(2) show ?thesis by (simp add: ejecutar_paso_def Let_def)
  next
    case (Inr b)
    with n(1) show ?thesis by simp
  qed
  have o: "verificar_colision_obstaculos ?g = Inr False"
  proof (cases "verificar_colision_obstaculos ?g")
    case (Inl e)
    with assms(2) c show ?thesis by (simp add: ejecutar_paso_def Let_def)
  next
    case (Inr b)
    with n(2) show ?thesis by simp
  qed
  obtain g1 where g1: "mover_serpiente ?g = Inr g1"
  proof (cases "mover_serpiente ?g")
    case (Inl e)
    with assms(2) c o show ?thesis by (simp add: ejecutar_paso_def Let_def)
  next
    case (Inr a)
    with that show ?thesis by simp
  qed
  obtain g2 where g2: "verificar_comida rs g1 = Inr (g2, rs')"
    and g': "g' = actualizar_pantalla (actualizar_efectos_temporales g2)"
  proof (cases "verificar_comida rs g1")
    case (Inl e)
    with assms(2) c o g1 show ?thesis by (simp add: ejecutar_paso_def Let_def)
  next
    case (Inr r)
    obtain a b where r: "r = (a, b)" by (cases r)
    from assms(2) c o g1 Inr r have "g' = actualizar_pantalla (actualizar_efectos_temporales a)"
      "rs' = b"
      by (simp_all add: ejecutar_paso_def Let_def)
    with Inr r that show ?thesis by simp
  qed
  from g1 g2 g' show ?thesis by (intro exI [of _ g1] exI [of _ g2] conjI)
qed

section \<open>Death-reset\<close>

lemma generar_obstaculos_desde_vacio:
  assumes "generar_obstaculos rs g = Inr (g', rs')"
  shows "g' = g\<lparr>obstaculos := obstaculos g'\<rparr>
     \<and> colocar_obstaculos (nat ((nivel g - 1) * 2)) rs (obstaculos g) = Inr (obstaculos g', rs')"
proof (cases "colocar_obstaculos (nat ((nivel g - 1) * 2)) rs (obstaculos g)")
  case (Inl e)
  with assms show ?thesis by (simp add: generar_obstaculos_def Let_def)
next
  case (Inr r)
  obtain obs r1 where r: "r = (obs, r1)" by (cases r)
  from assms Inr r have "g' = g\<lparr>obstaculos := obs\<rparr>" "rs' = r1"
    by (simp_all add: generar_obstaculos_def Let_def)
  with Inr r show ?thesis by simp
qed

lemma game_over_campos:
  assumes "game_over rs g = Inr (g', rs')"
  shows "\<exists>c rs1. g' = \<lparr>serpiente = [(0, 0)], obstaculos = obstaculos g', comida = Some c,
                      direccion = ''derecha'', puntaje = puntaje g, nivel = nivel g,
                      juegos_jugados = juegos_jugados g + 1,
                      velocidad_actual = VELOCIDAD_BASE + (nivel g - 1) * 20,
                      efecto_temporal = None,
                      mensaje_actual = MsgReinicio (juegos_jugados g + 1),
                      color_mensaje = ''yellow'', tiempo_mensaje = 60\<rparr>
          \<and> colocar_obstaculos (nat ((nivel g - 1) * 2)) rs [] = Inr (obstaculos g', rs1)"
proof -
  let ?g0 = "\<lparr>serpiente = [] @ [(0, 0)], obstaculos = [], comida = comida g,
              direccion = ''derecha'', puntaje = puntaje g, nivel = nivel g,
              juegos_jugados = juegos_jugados g + 1,
              velocidad_actual = VELOCIDAD_BASE + (nivel g - 1) * 20,
              efecto_temporal = None, mensaje_actual = MsgVacio,
              color_mensaje = color_mensaje g, tiempo_mensaje = 0\<rparr>"
  have i: "inicializar_juego rs (Some (g\<lparr>juegos_jugados := juegos_jugados g + 1\<rparr>))
      = generar_obstaculos rs ?g0"
    by (simp add: inicializar_juego_def Let_def)
  obtain g1 r1 where g1: "generar_obstaculos rs ?g0 = Inr (g1, r1)"
    and rest: "(case generar_nueva_comida r1 g1 of
             Inl e \<Rightarrow> Inl e
           | Inr (g2, rs2) \<Rightarrow>
               Inr (mostrar_mensaje (MsgReinicio (juegos_jugados g2)) ''yellow'' g2, rs2))
         = Inr (g', rs')"
  proof (cases "generar_obstaculos rs ?g0")
    case (Inl e)
    with assms i show ?thesis by (simp add: game_over_def)
  next
    case (Inr r)
    obtain a b where r: "r = (a, b)" by (cases r)
    with assms i Inr that show ?thesis by (simp add: game_over_def)
  qed
  obtain g2 where g2: "generar_nueva_comida r1 g1 = Inr (g2, rs')"
    and g': "g' = mostrar_mensaje (MsgReinicio (juegos_jugados g2)) ''yellow'' g2"
  proof (cases "generar_nueva_comida r1 g1")
    case (Inl e)
    with rest show ?thesis by simp
  next
    case (Inr r)
    obtain a b where r: "r = (a, b)" by (cases r)
    with rest Inr that show ?thesis by simp
  qed
  from generar_obstaculos_desde_vacio [OF g1] have
    o: "g1 = ?g0\<lparr>obstaculos := obstaculos g1\<rparr>"
    and k: "colocar_obstaculos (nat ((nivel g - 1) * 2)) rs [] = Inr (obstaculos g1, r1)"
    by simp_all
  from generar_nueva_comida_resultado [OF g2] obtain c where
    c: "g2 = g1\<lparr>comida := Some c\<rparr> \<and> \<not> conflicto_comida c g1
      \<and> comida_x c mod TAMANO_CELDA = 0 \<and> comida_y c mod TAMANO_CELDA = 0"
    by (rule exE)
  from c have c2: "g2 = g1\<lparr>comida := Some c\<rparr>" by (rule conjunct1)
  have e: "g' = \<lparr>serpiente = [(0, 0)], obstaculos = obstaculos g1, comida = Some c,
                      direccion = ''derecha'', puntaje = puntaje g, nivel = nivel g,
                      juegos_jugados = juegos_jugados g + 1,
                      velocidad_actual = VELOCIDAD_BASE + (nivel g - 1) * 20,
                      efecto_temporal = None,
                      mensaje_actual = MsgReinicio (juegos_jugados g + 1),
                      color_mensaje = ''yellow'', tiempo_mensaje = 60\<rparr>"
    by (subst g', subst (1 2) c2, subst (1 2) o) (simp add: mostrar_mensaje_def)
  then have oo: "obstaculos g' = obstaculos g1" by simp
  show ?thesis
    using e k unfolding oo [symmetric] by (intro exI [of _ c] exI [of _ r1] conjI)
qed

text \<open>
  C2 (amended). Every result of \<^verbatim>\<open>game_over\<close> keeps score and level, has the run count
  raised by one, the snake reduced to one head at the origin, the direction \<^verbatim>\<open>derecha\<close>
  and no effect. The obstacles are not kept: the list is emptied and \<open>2 * (nivel - 1)\<close>
  obstacles are drawn anew, independently of the old ones.
\<close>

theorem game_over_reinicia:
  assumes "game_over rs g = Inr (g', rs')"
  shows "puntaje g' = puntaje g \<and> nivel g' = nivel g
       \<and> juegos_jugados g' = juegos_jugados g + 1
       \<and> serpiente g' = [(0, 0)] \<and> direccion g' = ''derecha''
       \<and> efecto_temporal g' = None
       \<and> (\<exists>rs1. colocar_obstaculos (nat (2 * (nivel g - 1))) rs [] = Inr (obstaculos g', rs1))
       \<and> length (obstaculos g') = nat (2 * (nivel g - 1))"
proof -
  from game_over_campos [OF assms] obtain c rs1 where
    e: "g' = \<lparr>serpiente = [(0, 0)], obstaculos = obstaculos g', comida = Some c,
                      direccion = ''derecha'', puntaje = puntaje g, nivel = nivel g,
                      juegos_jugados = juegos_jugados g + 1,
                      velocidad_actual = VELOCIDAD_BASE + (nivel g - 1) * 20,
                      efecto_temporal = None,
                      mensaje_actual = MsgReinicio (juegos_jugados g + 1),
                      color_mensaje = ''yellow'', tiempo_mensaje = 60\<rparr>"
    and k: "colocar_obstaculos (nat ((nivel g - 1) * 2)) rs [] = Inr (obstaculos g', rs1)"
    by blast
  have k': "colocar_obstaculos (nat (2 * (nivel g - 1))) rs [] = Inr (obstaculos g', rs1)"
    using k by (simp add: mult.commute)
  from colocar_obstaculos_agrega [OF k'] have
    l: "length (obstaculos g') = nat (2 * (nivel g - 1))"
    by auto
  have f: "puntaje g' = puntaje g" "nivel g' = nivel g"
    "juegos_jugados g' = juegos_jugados g + 1"
    "serpiente g' = [(0, 0)]" "direccion g' = ''derecha''" "efecto_temporal g' = None"
    by (subst e, simp)+
  from f l k' show ?thesis
    by (intro conjI exI [of _ rs1])
qed

theorem game_over_reinicia_witness:
  "game_over sorteo_muerte_1 estado_15 = Inr (estado_16, [])
   \<and> puntaje estado_16 = puntaje estado_15 \<and> nivel estado_16 = nivel estado_15
   \<and> juegos_jugados estado_16 = juegos_jugados estado_15 + 1
   \<and> serpiente estado_16 = [(0, 0)] \<and> direccion estado_16 = ''derecha''
   \<and> efecto_temporal estado_16 = None
   \<and> (\<exists>rs1. colocar_obstaculos (nat (2 * (nivel estado_15 - 1))) sorteo_muerte_1 []
          = Inr (obstaculos estado_16, rs1))
   \<and> length (obstaculos estado_16) = nat (2 * (nivel estado_15 - 1))"
  by (rule conjI [OF game_over_estado_15 game_over_reinicia [OF game_over_estado_15]])

section \<open>Length of the snake\<close>

lemma serpiente_aplicar_efecto:
  "serpiente (aplicar_efecto t g) =
     (if t = VENENOSA
      then (if 1 < length (serpiente g) then butlast (serpiente g) else serpiente g)
      else serpiente g @ [(0, 0)])"
  by (cases t) (simp_all add: mostrar_mensaje_def crecer_serpiente_def)

lemma serpiente_subida:
  assumes "verificar_subida_nivel rs g = Inr (g', rs')"
  shows "serpiente g' = serpiente g"
  using verificar_subida_nivel_casos [OF assms] by auto

lemma serpiente_fin_turno:
  "serpiente (actualizar_pantalla (actualizar_efectos_temporales g)) = serpiente g"
  by (simp add: actualizar_pantalla_def actualizar_efectos_temporales_def
      split: option.splits)

lemma paso_vivo_serpiente:
  assumes v: "\<not> muere (atender_teclas teclas g)"
    and p: "ejecutar_paso teclas rs g = Inr (g', rs')"
  shows "serpiente g \<noteq> []
     \<and> (length (serpiente g') = length (serpiente g)
        \<or> length (serpiente g') = length (serpiente g) + 1
        \<or> (1 < length (serpiente g)
            \<and> length (serpiente g') = length (serpiente g) - 1
            \<and> (\<exists>c g1. mover_serpiente (atender_teclas teclas g) = Inr g1
                  \<and> comida g = Some c \<and> tipo c = VENENOSA
                  \<and> distancia2 (hd (serpiente g1)) (comida_x c, comida_y c) < 15 * 15)))"
proof -
  from paso_vivo [OF v p] obtain g1 g2 where
    m: "mover_serpiente (atender_teclas teclas g) = Inr g1" and
    c: "verificar_comida rs g1 = Inr (g2, rs')" and
    g': "g' = actualizar_pantalla (actualizar_efectos_temporales g2)"
    by blast
  obtain d where d: "atender_teclas teclas g = g\<lparr>direccion := d\<rparr>"
    using atender_teclas_campo by blast
  from mover_serpiente_campo [OF m] obtain s' where
    s': "g1 = (atender_teclas teclas g)\<lparr>serpiente := s'\<rparr>"
        "length s' = length (serpiente (atender_teclas teclas g))"
        "serpiente (atender_teclas teclas g) \<noteq> []"
    by blast
  have l1: "length (serpiente g1) = length (serpiente g)" and ne: "serpiente g \<noteq> []"
    and c1: "comida g1 = comida g"
    using s' by (simp_all add: d)
  have l': "length (serpiente g') = length (serpiente g2)"
    by (simp add: g' serpiente_fin_turno)
  from verificar_comida_casos [OF c] show ?thesis
  proof
    assume "g2 = g1 \<and> rs' = rs"
    with l' l1 ne show ?thesis by simp
  next
    assume "\<exists>c c' r1. comida g1 = Some c
             \<and> distancia2 (hd (serpiente g1)) (comida_x c, comida_y c) < 15 * 15
             \<and> verificar_subida_nivel r1 ((aplicar_efecto (tipo c) g1)\<lparr>comida := Some c'\<rparr>)
                 = Inr (g2, rs')"
    then obtain c c' r1 where
      co: "comida g1 = Some c" and
      di: "distancia2 (hd (serpiente g1)) (comida_x c, comida_y c) < 15 * 15" and
      su: "verificar_subida_nivel r1 ((aplicar_efecto (tipo c) g1)\<lparr>comida := Some c'\<rparr>)
                 = Inr (g2, rs')"
      by blast
    have l2: "serpiente g2 = serpiente (aplicar_efecto (tipo c) g1)"
      using serpiente_subida [OF su] by simp
    show ?thesis
    proof (cases "tipo c = VENENOSA")
      case False
      then have "length (serpiente g') = length (serpiente g) + 1"
        by (simp add: l' l2 serpiente_aplicar_efecto l1 del: aplicar_efecto.simps)
      with ne show ?thesis by simp
    next
      case True
      show ?thesis
      proof (cases "1 < length (serpiente g)")
        case False
        then have "length (serpiente g') = length (serpiente g)"
          by (simp add: l' l2 serpiente_aplicar_efecto l1 True del: aplicar_efecto.simps)
        with ne show ?thesis by simp
      next
        case len: True
        then have "length (serpiente g') = length (serpiente g) - 1"
          by (simp add: l' l2 serpiente_aplicar_efecto l1 True del: aplicar_efecto.simps)
        moreover have "\<exists>c g1. mover_serpiente (atender_teclas teclas g) = Inr g1
                  \<and> comida g = Some c \<and> tipo c = VENENOSA
                  \<and> distancia2 (hd (serpiente g1)) (comida_x c, comida_y c) < 15 * 15"
          using m co c1 True di by (intro exI [of _ c] exI [of _ g1]) simp
        ultimately show ?thesis using ne len by blast
      qed
    qed
  qed
qed

lemma paso_muere_serpiente:
  assumes v: "muere (atender_teclas teclas g)"
    and p: "ejecutar_paso teclas rs g = Inr (g', rs')"
  shows "serpiente g' = [(0, 0)]"
proof -
  from p paso_muere [OF v, of rs] have "game_over rs (atender_teclas teclas g) = Inr (g', rs')"
    by simp
  from game_over_campos [OF this] obtain c rs1 where
    "g' = \<lparr>serpiente = [(0, 0)], obstaculos = obstaculos g', comida = Some c,
                      direccion = ''derecha'', puntaje = puntaje (atender_teclas teclas g),
                      nivel = nivel (atender_teclas teclas g),
                      juegos_jugados = juegos_jugados (atender_teclas teclas g) + 1,
                      velocidad_actual = VELOCIDAD_BASE + (nivel (atender_teclas teclas g) - 1) * 20,
                      efecto_temporal = None,
                      mensaje_actual = MsgReinicio (juegos_jugados (atender_teclas teclas g) + 1),
                      color_mensaje = ''yellow'', tiempo_mensaje = 60\<rparr>"
    by blast
  then show ?thesis by (rule ssubst) simp
qed

lemma alcanzable_serpiente: "alcanzable g \<Longrightarrow> serpiente g \<noteq> []"
proof (induction rule: alcanzable.induct)
  case (inicio rs g rs')
  then obtain g0 r0 where
    i: "inicializar_juego rs None = Inr (g0, r0)" and
    c: "generar_nueva_comida r0 g0 = Inr (g, rs')"
    by (cases "inicializar_juego rs None") (auto simp: JuegoSnake_def)
  from i have "generar_obstaculos rs
           \<lparr>serpiente = [] @ [(0, 0)], obstaculos = [], comida = None,
            direccion = ''derecha'', puntaje = 0, nivel = 1, juegos_jugados = 0,
            velocidad_actual = VELOCIDAD_BASE + (1 - 1) * 20, efecto_temporal = None,
            mensaje_actual = MsgVacio, color_mensaje = ''white'',
            tiempo_mensaje = 0\<rparr> = Inr (g0, r0)"
    by (simp add: inicializar_juego_def Let_def)
  from generar_obstaculos_agrega [OF this] have "serpiente g0 = [(0, 0)]"
    by auto
  moreover from generar_nueva_comida_resultado [OF c] have "serpiente g = serpiente g0"
    by auto
  ultimately show ?case by simp
next
  case (turno g teclas rs g' rs')
  show ?case
  proof (cases "muere (atender_teclas teclas g)")
    case True
    from paso_muere_serpiente [OF True turno.hyps(3)] show ?thesis by simp
  next
    case False
    from paso_vivo_serpiente [OF False turno.hyps(3)] turno.IH show ?thesis
      by (cases "serpiente g'") auto
  qed
qed

text \<open>
  C7 (amended). \<^verbatim>\<open>crecer_serpiente\<close> adds exactly one segment. A turn of the main loop
  shortens the snake in two cases only: it is a death-reset, which leaves the single head at
  the origin, or it eats a Poisonous food with more than one segment, which removes exactly
  one. In every reachable state the snake has at least one segment.
\<close>

theorem longitud_serpiente:
  "length (serpiente (crecer_serpiente g)) = length (serpiente g) + 1
   \<and> (ejecutar_paso teclas rs g = Inr (g', rs')
        \<and> length (serpiente g') < length (serpiente g) \<longrightarrow>
      (muere (atender_teclas teclas g) \<and> serpiente g' = [(0, 0)])
      \<or> (\<not> muere (atender_teclas teclas g)
          \<and> 1 < length (serpiente g)
          \<and> length (serpiente g') = length (serpiente g) - 1
          \<and> (\<exists>c g1. mover_serpiente (atender_teclas teclas g) = Inr g1
                \<and> comida g = Some c \<and> tipo c = VENENOSA
                \<and> distancia2 (hd (serpiente g1)) (comida_x c, comida_y c) < 15 * 15)))
   \<and> (alcanzable g \<longrightarrow> 1 \<le> length (serpiente g))"
proof (intro conjI impI)
  show "length (serpiente (crecer_serpiente g)) = length (serpiente g) + 1"
    by (simp add: crecer_serpiente_def)
next
  assume a: "ejecutar_paso teclas rs g = Inr (g', rs')
        \<and> length (serpiente g') < length (serpiente g)"
  then have p: "ejecutar_paso teclas rs g = Inr (g', rs')"
    and l: "length (serpiente g') < length (serpiente g)"
    by simp_all
  show "(muere (atender_teclas teclas g) \<and> serpiente g' = [(0, 0)])
      \<or> (\<not> muere (atender_teclas teclas g)
          \<and> 1 < length (serpiente g)
          \<and> length (serpiente g') = length (serpiente g) - 1
          \<and> (\<exists>c g1. mover_serpiente (atender_teclas teclas g) = Inr g1
                \<and> comida g = Some c \<and> tipo c = VENENOSA
                \<and> distancia2 (hd (serpiente g1)) (comida_x c, comida_y c) < 15 * 15))"
  proof (cases "muere (atender_teclas teclas g)")
    case True
    with paso_muere_serpiente [OF True p] show ?thesis by simp
  next
    case False
    from paso_vivo_serpiente [OF False p] l False show ?thesis
      by (elim conjE disjE) simp_all
  qed
next
  assume "alcanzable g"
  from alcanzable_serpiente [OF this] show "1 \<le> length (serpiente g)"
    by (cases "serpiente g") simp_all
qed

theorem longitud_serpiente_witness:
  "ejecutar_paso [] sorteo_muerte_1 estado_15 = Inr (estado_16, [])
   \<and> length (serpiente estado_16) < length (serpiente estado_15)
   \<and> muere (atender_teclas [] estado_15) \<and> serpiente estado_16 = [(0, 0)]
   \<and> ejecutar_paso [] [280, 480, 0] juego_veneno
       = Inr (juego_veneno\<lparr>serpiente := [(80, 0), (60, 0)], comida := Some (Comida FIT 0 200),
                         mensaje_actual := MsgVenenosa, color_mensaje := ''purple'',
                         tiempo_mensaje := 59\<rparr>, [])
   \<and> \<not> muere (atender_teclas [] juego_veneno)
   \<and> length (serpiente juego_veneno) = 3
   \<and> alcanzable estado_15 \<and> 1 \<le> length (serpiente estado_15)
   \<and> length (serpiente (crecer_serpiente juego_veneno)) = 4"
proof -
  let ?v = "juego_veneno\<lparr>serpiente := [(80, 0), (60, 0)], comida := Some (Comida FIT 0 200),
                         mensaje_actual := MsgVenenosa, color_mensaje := ''purple'',
                         tiempo_mensaje := 59\<rparr>"
  note t1 = longitud_serpiente [of estado_15 "[]" sorteo_muerte_1 estado_16 "[]"]
  note t2 = longitud_serpiente [of juego_veneno "[]" "[280, 480, 0]" ?v "[]"]
  have l: "length (serpiente estado_16) < length (serpiente estado_15)"
    by (simp add: estado_15_def estado_16_def)
  have m: "muere (atender_teclas [] estado_15)"
    by code_simp
  have s: "serpiente estado_16 = [(0, 0)]"
    by (simp add: estado_16_def)
  have nv: "\<not> muere (atender_teclas [] juego_veneno)"
    by code_simp
  have l3: "length (serpiente juego_veneno) = 3"
    by (simp add: juego_veneno_def juego_tres_def)
  from t1 alcanzable_estado_15 have a: "1 \<le> length (serpiente estado_15)"
    by blast
  from t2 l3 have g: "length (serpiente (crecer_serpiente juego_veneno)) = 4"
    by simp
  from vida_1e l m s paso_juego_veneno nv l3 alcanzable_estado_15 a g show ?thesis
    by (intro conjI)
qed

section \<open>Obstacles after level-ups\<close>

lemma JuegoSnake_campos:
  assumes "JuegoSnake rs = Inr (g, rs')"
  shows "\<exists>c. g = \<lparr>serpiente = [(0, 0)], obstaculos = [], comida = Some c,
                  direccion = ''derecha'', puntaje = 0, nivel = 1, juegos_jugados = 0,
                  velocidad_actual = VELOCIDAD_BASE, efecto_temporal = None,
                  mensaje_actual = MsgVacio, color_mensaje = ''white'',
                  tiempo_mensaje = 0\<rparr>"
proof -
  from assms obtain g0 r0 where
    i: "inicializar_juego rs None = Inr (g0, r0)" and
    c: "generar_nueva_comida r0 g0 = Inr (g, rs')"
    by (cases "inicializar_juego rs None") (auto simp: JuegoSnake_def)
  let ?g = "\<lparr>serpiente = [(0, 0)], obstaculos = [], comida = None,
            direccion = ''derecha'', puntaje = 0, nivel = 1, juegos_jugados = 0,
            velocidad_actual = VELOCIDAD_BASE, efecto_temporal = None,
            mensaje_actual = MsgVacio, color_mensaje = ''white'',
            tiempo_mensaje = 0\<rparr>"
  from i have "generar_obstaculos rs ?g = Inr (g0, r0)"
    by (simp add: inicializar_juego_def Let_def)
  then have g0: "g0 = ?g"
    by (simp add: generar_obstaculos_def Let_def)
  from generar_nueva_comida_resultado [OF c] obtain c' where
    "g = g0\<lparr>comida := Some c'\<rparr>" by blast
  then show ?thesis by (intro exI [of _ c']) (simp add: g0)
qed

lemma campos_aplicar_efecto:
  "nivel (aplicar_efecto t g) = nivel g"
  "obstaculos (aplicar_efecto t g) = obstaculos g"
  "0 \<le> puntaje g \<Longrightarrow> 0 \<le> puntaje (aplicar_efecto t g)"
  "0 \<le> puntaje g \<Longrightarrow> puntaje (aplicar_efecto t g) \<le> puntaje g + 5"
  by (cases t; simp add: mostrar_mensaje_def crecer_serpiente_def)+

lemma campos_fin_turno:
  "nivel (actualizar_pantalla (actualizar_efectos_temporales g)) = nivel g"
  "obstaculos (actualizar_pantalla (actualizar_efectos_temporales g)) = obstaculos g"
  "puntaje (actualizar_pantalla (actualizar_efectos_temporales g)) = puntaje g"
  by (simp_all add: actualizar_pantalla_def actualizar_efectos_temporales_def
      split: option.splits)

lemma div_50_paso: "p div 50 + 1 \<le> l \<Longrightarrow> q \<le> p + 5 \<Longrightarrow> q div 50 \<le> (l::int)"
  by arith

lemma suma_gauss: "2 * (\<Sum>i = 1..n. i) = n * (n + (1::nat))"
  by (induction n) auto


text \<open>Invariant of a session: level, score and obstacle count after \<open>n\<close> level-ups.\<close>

lemma paso_vivo_obstaculos:
  assumes v: "\<not> muere (atender_teclas teclas g)"
    and p: "ejecutar_paso teclas rs g = Inr (g', rs')"
  shows "(nivel g' = nivel g \<and> obstaculos g' = obstaculos g
          \<and> (0 \<le> puntaje g \<and> puntaje g div 50 + 1 \<le> nivel g \<longrightarrow>
               0 \<le> puntaje g' \<and> puntaje g' div 50 + 1 \<le> nivel g'))
       \<or> (nivel g < nivel g' \<and> nivel g' = puntaje g' div 50 + 1
           \<and> (0 \<le> puntaje g \<and> puntaje g div 50 + 1 \<le> nivel g \<longrightarrow>
               0 \<le> puntaje g' \<and> nivel g' = nivel g + 1)
           \<and> (\<exists>nuevos. obstaculos g' = obstaculos g @ nuevos
                 \<and> length nuevos = nat (2 * (nivel g' - 1))))"
proof -
  from paso_vivo [OF v p] obtain g1 g2 where
    m: "mover_serpiente (atender_teclas teclas g) = Inr g1" and
    c: "verificar_comida rs g1 = Inr (g2, rs')" and
    g': "g' = actualizar_pantalla (actualizar_efectos_temporales g2)"
    by blast
  obtain d where d: "atender_teclas teclas g = g\<lparr>direccion := d\<rparr>"
    using atender_teclas_campo by blast
  from mover_serpiente_campo [OF m] obtain s' where
    s': "g1 = (atender_teclas teclas g)\<lparr>serpiente := s'\<rparr>"
    by blast
  have f1: "nivel g1 = nivel g" "obstaculos g1 = obstaculos g" "puntaje g1 = puntaje g"
    using s' by (simp_all add: d)
  have f': "nivel g' = nivel g2" "obstaculos g' = obstaculos g2" "puntaje g' = puntaje g2"
    by (simp_all add: g' campos_fin_turno)
  from verificar_comida_casos [OF c] show ?thesis
  proof
    assume "g2 = g1 \<and> rs' = rs"
    with f1 f' show ?thesis by simp
  next
    assume "\<exists>c c' r1. comida g1 = Some c
             \<and> distancia2 (hd (serpiente g1)) (comida_x c, comida_y c) < 15 * 15
             \<and> verificar_subida_nivel r1 ((aplicar_efecto (tipo c) g1)\<lparr>comida := Some c'\<rparr>)
                 = Inr (g2, rs')"
    then obtain c c' r1 where
      su: "verificar_subida_nivel r1 ((aplicar_efecto (tipo c) g1)\<lparr>comida := Some c'\<rparr>)
                 = Inr (g2, rs')"
      by blast
    let ?ga = "(aplicar_efecto (tipo c) g1)\<lparr>comida := Some c'\<rparr>"
    have fa: "nivel ?ga = nivel g" "obstaculos ?ga = obstaculos g"
      by (simp_all add: campos_aplicar_efecto f1 del: aplicar_efecto.simps)
    have pa: "0 \<le> puntaje g \<Longrightarrow> 0 \<le> puntaje ?ga \<and> puntaje ?ga \<le> puntaje g + 5"
      using campos_aplicar_efecto(3,4) [of g1 "tipo c"]
      by (simp add: f1 del: aplicar_efecto.simps)
    from verificar_subida_nivel_casos [OF su] show ?thesis
    proof
      assume a: "\<not> nivel ?ga < puntaje ?ga div 50 + 1 \<and> g2 = ?ga"
      then have e: "nivel g' = nivel g" "obstaculos g' = obstaculos g"
        "puntaje g' = puntaje ?ga"
        using f' fa by simp_all
      from a have le: "puntaje ?ga div 50 + 1 \<le> nivel g" using fa by simp
      have "0 \<le> puntaje g \<and> puntaje g div 50 + 1 \<le> nivel g \<longrightarrow>
               0 \<le> puntaje g' \<and> puntaje g' div 50 + 1 \<le> nivel g'"
        using pa le e by simp
      with e show ?thesis by simp
    next
      assume "nivel ?ga < puntaje ?ga div 50 + 1
           \<and> (\<exists>nuevos. g2 = ?ga\<lparr>nivel := puntaje ?ga div 50 + 1,
                          velocidad_actual := VELOCIDAD_BASE + (puntaje ?ga div 50) * 20,
                          mensaje_actual := MsgNivel (puntaje ?ga div 50 + 1),
                          tiempo_mensaje := 60,
                          color_mensaje := ''cyan'',
                          obstaculos := obstaculos ?ga @ nuevos\<rparr>
                 \<and> length nuevos = nat (2 * (puntaje ?ga div 50)))"
      then obtain nuevos where
        lt: "nivel ?ga < puntaje ?ga div 50 + 1" and
        e2: "g2 = ?ga\<lparr>nivel := puntaje ?ga div 50 + 1,
                          velocidad_actual := VELOCIDAD_BASE + (puntaje ?ga div 50) * 20,
                          mensaje_actual := MsgNivel (puntaje ?ga div 50 + 1),
                          tiempo_mensaje := 60,
                          color_mensaje := ''cyan'',
                          obstaculos := obstaculos ?ga @ nuevos\<rparr>" and
        ln: "length nuevos = nat (2 * (puntaje ?ga div 50))"
        by blast
      have n2: "nivel g2 = puntaje ?ga div 50 + 1" "puntaje g2 = puntaje ?ga"
        "obstaculos g2 = obstaculos g @ nuevos"
        by (subst e2, simp add: fa del: aplicar_efecto.simps)+
      have a1: "nivel g < nivel g'" using lt n2 f' fa by simp
      have a2: "nivel g' = puntaje g' div 50 + 1" using n2 f' by simp
      have a3: "0 \<le> puntaje g \<and> puntaje g div 50 + 1 \<le> nivel g \<longrightarrow>
               0 \<le> puntaje g' \<and> nivel g' = nivel g + 1"
      proof
        assume h: "0 \<le> puntaje g \<and> puntaje g div 50 + 1 \<le> nivel g"
        with pa have q: "0 \<le> puntaje ?ga" "puntaje ?ga \<le> puntaje g + 5" by simp_all
        from div_50_paso [OF conjunct2 [OF h] q(2)] have "puntaje ?ga div 50 \<le> nivel g" .
        with lt fa have "puntaje ?ga div 50 + 1 = nivel g + 1" by simp
        with q(1) n2 f' show "0 \<le> puntaje g' \<and> nivel g' = nivel g + 1" by simp
      qed
      have a4: "\<exists>nuevos. obstaculos g' = obstaculos g @ nuevos
                 \<and> length nuevos = nat (2 * (nivel g' - 1))"
        using n2 f' ln by (intro exI [of _ nuevos]) simp
      from a1 a2 a3 a4 show ?thesis by (intro disjI2 conjI)
    qed
  qed
qed

lemma sesion_invariante:
  assumes "nivel g = int n + 1" and "0 \<le> puntaje g"
    and "puntaje g div 50 + 1 \<le> nivel g"
    and "length (obstaculos g) = n * (n + 1)"
    and "ejecutar_turnos turnos rs g = Inr (g', rs')"
    and "vivos turnos rs g"
  shows "nivel g' = int (n + subidas turnos rs g) + 1 \<and> 0 \<le> puntaje g'
       \<and> puntaje g' div 50 + 1 \<le> nivel g'
       \<and> length (obstaculos g') = (n + subidas turnos rs g) * (n + subidas turnos rs g + 1)"
  using assms
proof (induction turnos arbitrary: n g rs)
  case Nil
  then show ?case by simp
next
  case (Cons teclas resto)
  from Cons.prems(5) obtain g1 r1 where
    p: "ejecutar_paso teclas rs g = Inr (g1, r1)" and
    r: "ejecutar_turnos resto r1 g1 = Inr (g', rs')"
    by (cases "ejecutar_paso teclas rs g") auto
  from Cons.prems(6) p have v: "\<not> muere (atender_teclas teclas g)"
    and vr: "vivos resto r1 g1"
    by simp_all
  let ?d = "if nivel g < nivel g1 then 1 else (0::nat)"
  have s: "subidas (teclas # resto) rs g = ?d + subidas resto r1 g1"
    using p by simp
  have j: "nivel g1 = int (n + ?d) + 1 \<and> 0 \<le> puntaje g1
       \<and> puntaje g1 div 50 + 1 \<le> nivel g1
       \<and> length (obstaculos g1) = (n + ?d) * (n + ?d + 1)"
    using paso_vivo_obstaculos [OF v p]
  proof
    assume "nivel g1 = nivel g \<and> obstaculos g1 = obstaculos g
          \<and> (0 \<le> puntaje g \<and> puntaje g div 50 + 1 \<le> nivel g \<longrightarrow>
               0 \<le> puntaje g1 \<and> puntaje g1 div 50 + 1 \<le> nivel g1)"
    with Cons.prems(1-4) show ?thesis by simp
  next
    assume a: "nivel g < nivel g1 \<and> nivel g1 = puntaje g1 div 50 + 1
           \<and> (0 \<le> puntaje g \<and> puntaje g div 50 + 1 \<le> nivel g \<longrightarrow>
               0 \<le> puntaje g1 \<and> nivel g1 = nivel g + 1)
           \<and> (\<exists>nuevos. obstaculos g1 = obstaculos g @ nuevos
                 \<and> length nuevos = nat (2 * (nivel g1 - 1)))"
    then obtain nuevos where
      n: "obstaculos g1 = obstaculos g @ nuevos" "length nuevos = nat (2 * (nivel g1 - 1))"
      by blast
    from a Cons.prems(1-3) have l: "nivel g < nivel g1" "nivel g1 = int n + 2"
      "0 \<le> puntaje g1" "nivel g1 = puntaje g1 div 50 + 1"
      by simp_all
    have "length nuevos = 2 * (n + 1)" using n(2) l(2) by simp
    with n(1) Cons.prems(4) have "length (obstaculos g1) = (n + 1) * (n + 1 + 1)"
      by simp
    with l show ?thesis by simp
  qed
  from j have j1: "nivel g1 = int (n + ?d) + 1" and j2: "0 \<le> puntaje g1"
    and j3: "puntaje g1 div 50 + 1 \<le> nivel g1"
    and j4: "length (obstaculos g1) = (n + ?d) * (n + ?d + 1)"
    by blast+
  from Cons.IH [OF j1 j2 j3 j4 r vr] show ?case
    unfolding s by (simp add: add.assoc)
qed

text \<open>
  C4 (amended). From the constructed state, after a sequence of turns without a death-reset
  in which the level was raised \<open>N\<close> times, the level is \<open>N + 1\<close> and the number of
  obstacles is \<open>2 * (1 + 2 + ... + N)\<close>: each level-up appends \<open>2 * (nivel - 1)\<close> obstacles
  for the level just reached. A turn that is not a death-reset never removes an obstacle:
  it appends that batch when it raises the level and nothing otherwise.
\<close>

theorem obstaculos_tras_subidas:
  "(JuegoSnake rs0 = Inr (g0, rs) \<and> ejecutar_turnos turnos rs g0 = Inr (g, rs')
      \<and> vivos turnos rs g0 \<longrightarrow>
        length (obstaculos g) = 2 * (\<Sum>i = 1..subidas turnos rs g0. i)
        \<and> nivel g = 1 + int (subidas turnos rs g0))
   \<and> (ejecutar_paso teclas rs1 g1 = Inr (g2, rs2) \<and> \<not> muere (atender_teclas teclas g1) \<longrightarrow>
        (\<exists>nuevos. obstaculos g2 = obstaculos g1 @ nuevos
           \<and> length nuevos = (if nivel g1 < nivel g2 then nat (2 * (nivel g2 - 1)) else 0)))"
proof (rule conjI; rule impI)
  assume a: "JuegoSnake rs0 = Inr (g0, rs) \<and> ejecutar_turnos turnos rs g0 = Inr (g, rs')
      \<and> vivos turnos rs g0"
  then have c: "JuegoSnake rs0 = Inr (g0, rs)"
    and r: "ejecutar_turnos turnos rs g0 = Inr (g, rs')" and v: "vivos turnos rs g0"
    by simp_all
  from JuegoSnake_campos [OF c] obtain c0 where
    g0: "g0 = \<lparr>serpiente = [(0, 0)], obstaculos = [], comida = Some c0,
                  direccion = ''derecha'', puntaje = 0, nivel = 1, juegos_jugados = 0,
                  velocidad_actual = VELOCIDAD_BASE, efecto_temporal = None,
                  mensaje_actual = MsgVacio, color_mensaje = ''white'',
                  tiempo_mensaje = 0\<rparr>"
    by blast
  have i: "nivel g0 = int 0 + 1" "0 \<le> puntaje g0" "puntaje g0 div 50 + 1 \<le> nivel g0"
    "length (obstaculos g0) = 0 * (0 + 1)"
    by (simp_all add: g0)
  from sesion_invariante [OF i r v] have
    "nivel g = int (subidas turnos rs g0) + 1"
    "length (obstaculos g) = subidas turnos rs g0 * (subidas turnos rs g0 + 1)"
    by simp_all
  then show "length (obstaculos g) = 2 * (\<Sum>i = 1..subidas turnos rs g0. i)
        \<and> nivel g = 1 + int (subidas turnos rs g0)"
    by (subst suma_gauss) simp
next
  assume a: "ejecutar_paso teclas rs1 g1 = Inr (g2, rs2) \<and> \<not> muere (atender_teclas teclas g1)"
  then have p: "ejecutar_paso teclas rs1 g1 = Inr (g2, rs2)"
    and v: "\<not> muere (atender_teclas teclas g1)"
    by simp_all
  from paso_vivo_obstaculos [OF v p]
  show "\<exists>nuevos. obstaculos g2 = obstaculos g1 @ nuevos
           \<and> length nuevos = (if nivel g1 < nivel g2 then nat (2 * (nivel g2 - 1)) else 0)"
  proof
    assume "nivel g2 = nivel g1 \<and> obstaculos g2 = obstaculos g1
          \<and> (0 \<le> puntaje g1 \<and> puntaje g1 div 50 + 1 \<le> nivel g1 \<longrightarrow>
               0 \<le> puntaje g2 \<and> puntaje g2 div 50 + 1 \<le> nivel g2)"
    then show ?thesis by (intro exI [of _ "[]"]) simp
  next
    assume "nivel g1 < nivel g2 \<and> nivel g2 = puntaje g2 div 50 + 1
           \<and> (0 \<le> puntaje g1 \<and> puntaje g1 div 50 + 1 \<le> nivel g1 \<longrightarrow>
               0 \<le> puntaje g2 \<and> nivel g2 = nivel g1 + 1)
           \<and> (\<exists>nuevos. obstaculos g2 = obstaculos g1 @ nuevos
                 \<and> length nuevos = nat (2 * (nivel g2 - 1)))"
    then obtain nuevos where "nivel g1 < nivel g2"
      "obstaculos g2 = obstaculos g1 @ nuevos" "length nuevos = nat (2 * (nivel g2 - 1))"
      by blast
    then show ?thesis by (intro exI [of _ nuevos]) simp
  qed
qed

theorem obstaculos_tras_subidas_witness:
  "JuegoSnake ([300, 280, 7] @ sorteo_1) = Inr (juego_nuevo, sorteo_1)
   \<and> ejecutar_turnos (replicate 10 []) sorteo_1 juego_nuevo = Inr (estado_10, [])
   \<and> vivos (replicate 10 []) sorteo_1 juego_nuevo
   \<and> subidas (replicate 10 []) sorteo_1 juego_nuevo = 1
   \<and> length (obstaculos estado_10) = 2 * (\<Sum>i = 1..1. i)
   \<and> nivel estado_10 = 2
   \<and> ejecutar_paso [] [320, 280, 0, 180, 180, 80, 80] (juego_49\<lparr>serpiente := [(0, 0)]\<rparr>)
       = Inr (juego_50\<lparr>tiempo_mensaje := 59\<rparr>, [])
   \<and> \<not> muere (atender_teclas [] (juego_49\<lparr>serpiente := [(0, 0)]\<rparr>))
   \<and> (\<exists>nuevos. obstaculos (juego_50\<lparr>tiempo_mensaje := 59\<rparr>)
          = obstaculos (juego_49\<lparr>serpiente := [(0, 0)]\<rparr>) @ nuevos
        \<and> length nuevos = 2)"
proof -
  have v: "vivos (replicate 10 []) sorteo_1 juego_nuevo"
    by code_simp
  have s: "subidas (replicate 10 []) sorteo_1 juego_nuevo = 1"
    by code_simp
  have nm: "\<not> muere (atender_teclas [] (juego_49\<lparr>serpiente := [(0, 0)]\<rparr>))"
    by code_simp
  note t = obstaculos_tras_subidas
    [of "[300, 280, 7] @ sorteo_1" juego_nuevo sorteo_1 "replicate 10 []" estado_10 "[]" "[]"
        "[320, 280, 0, 180, 180, 80, 80]" "juego_49\<lparr>serpiente := [(0, 0)]\<rparr>"
        "juego_50\<lparr>tiempo_mensaje := 59\<rparr>" "[]"]
  from t construir_con_sorteo vida_1a v have
    "length (obstaculos estado_10)
       = 2 * (\<Sum>i = 1..subidas (replicate 10 []) sorteo_1 juego_nuevo. i)
     \<and> nivel estado_10 = 1 + int (subidas (replicate 10 []) sorteo_1 juego_nuevo)"
    by blast
  then have a: "length (obstaculos estado_10) = 2 * (\<Sum>i = 1..1. i)" "nivel estado_10 = 2"
    by (simp_all add: s)
  from t paso_sube_nivel nm have
    "\<exists>nuevos. obstaculos (juego_50\<lparr>tiempo_mensaje := 59\<rparr>)
          = obstaculos (juego_49\<lparr>serpiente := [(0, 0)]\<rparr>) @ nuevos
        \<and> length nuevos = (if nivel (juego_49\<lparr>serpiente := [(0, 0)]\<rparr>)
                                < nivel (juego_50\<lparr>tiempo_mensaje := 59\<rparr>)
                             then nat (2 * (nivel (juego_50\<lparr>tiempo_mensaje := 59\<rparr>) - 1))
                             else 0)"
    by blast
  then have b: "\<exists>nuevos. obstaculos (juego_50\<lparr>tiempo_mensaje := 59\<rparr>)
          = obstaculos (juego_49\<lparr>serpiente := [(0, 0)]\<rparr>) @ nuevos
        \<and> length nuevos = 2"
    by (simp add: juego_49_def juego_50_def juego_nuevo_def)
  from construir_con_sorteo vida_1a v s a paso_sube_nivel nm b show ?thesis
    by (intro conjI)
qed

section \<open>Bounds on the speed\<close>

lemma velocidad_aplicar_efecto:
  "velocidad_actual (aplicar_efecto t g) =
     (if t = ALTO_GRASAS then max 50 (velocidad_actual g - 50)
      else if t = REAL then min 300 (velocidad_actual g + 30)
      else velocidad_actual g)"
  by (cases t) (simp_all add: mostrar_mensaje_def crecer_serpiente_def)

lemma efecto_aplicar_efecto:
  "efecto_temporal (aplicar_efecto t g) =
     (if t = ALTO_GRASAS then Some \<lparr>efecto_tipo = ''lento'', duracion = 5\<rparr>
      else if t = REAL then Some \<lparr>efecto_tipo = ''rapido'', duracion = 5\<rparr>
      else efecto_temporal g)"
  by (cases t) (simp_all add: mostrar_mensaje_def crecer_serpiente_def)

lemma velocidad_fin_turno:
  "velocidad_actual (actualizar_pantalla (actualizar_efectos_temporales g)) =
     (if caduca g then VELOCIDAD_BASE else velocidad_actual g)"
  by (simp add: actualizar_pantalla_def actualizar_efectos_temporales_def caduca_def
      split: option.splits)

lemma efecto_fin_turno:
  "\<not> caduca g \<Longrightarrow>
   (efecto_temporal (actualizar_pantalla (actualizar_efectos_temporales g)) = None)
     = (efecto_temporal g = None)"
  by (auto simp: actualizar_pantalla_def actualizar_efectos_temporales_def caduca_def
      split: option.splits)

text \<open>The bounds on the speed that every turn keeps.\<close>

lemma cota_aplicar_efecto:
  assumes "50 \<le> velocidad_actual g"
    and "velocidad_actual g \<le> max 300 (VELOCIDAD_BASE + (nivel g - 1) * 20)"
  shows "50 \<le> velocidad_actual (aplicar_efecto t g)
     \<and> velocidad_actual (aplicar_efecto t g) \<le> max 300 (VELOCIDAD_BASE + (nivel g - 1) * 20)"
  using assms unfolding velocidad_aplicar_efecto by (auto simp: min_def max_def)

lemma paso_cota_velocidad:
  assumes i: "1 \<le> nivel g" "50 \<le> velocidad_actual g"
    "velocidad_actual g \<le> max 300 (VELOCIDAD_BASE + (nivel g - 1) * 20)"
    and p: "ejecutar_paso teclas rs g = Inr (g', rs')"
  shows "1 \<le> nivel g' \<and> 50 \<le> velocidad_actual g'
     \<and> velocidad_actual g' \<le> max 300 (VELOCIDAD_BASE + (nivel g' - 1) * 20)"
proof (cases "muere (atender_teclas teclas g)")
  case True
  obtain d where d: "atender_teclas teclas g = g\<lparr>direccion := d\<rparr>"
    using atender_teclas_campo by blast
  from p paso_muere [OF True, of rs] have "game_over rs (atender_teclas teclas g) = Inr (g', rs')"
    by simp
  from game_over_campos [OF this] obtain c rs1 where
    e: "g' = \<lparr>serpiente = [(0, 0)], obstaculos = obstaculos g', comida = Some c,
                      direccion = ''derecha'', puntaje = puntaje (atender_teclas teclas g),
                      nivel = nivel (atender_teclas teclas g),
                      juegos_jugados = juegos_jugados (atender_teclas teclas g) + 1,
                      velocidad_actual = VELOCIDAD_BASE + (nivel (atender_teclas teclas g) - 1) * 20,
                      efecto_temporal = None,
                      mensaje_actual = MsgReinicio (juegos_jugados (atender_teclas teclas g) + 1),
                      color_mensaje = ''yellow'', tiempo_mensaje = 60\<rparr>"
    by blast
  have "nivel g' = nivel g" "velocidad_actual g' = VELOCIDAD_BASE + (nivel g - 1) * 20"
    by (subst e, simp add: d)+
  with i(1) show ?thesis by (simp add: VELOCIDAD_BASE_def)
next
  case False
  from paso_vivo [OF False p] obtain g1 g2 where
    m: "mover_serpiente (atender_teclas teclas g) = Inr g1" and
    c: "verificar_comida rs g1 = Inr (g2, rs')" and
    g': "g' = actualizar_pantalla (actualizar_efectos_temporales g2)"
    by blast
  obtain d where d: "atender_teclas teclas g = g\<lparr>direccion := d\<rparr>"
    using atender_teclas_campo by blast
  from mover_serpiente_campo [OF m] obtain s' where
    s': "g1 = (atender_teclas teclas g)\<lparr>serpiente := s'\<rparr>"
    by blast
  have f1: "nivel g1 = nivel g" "velocidad_actual g1 = velocidad_actual g"
    using s' by (simp_all add: d)
  have k: "1 \<le> nivel g2 \<and> 50 \<le> velocidad_actual g2
     \<and> velocidad_actual g2 \<le> max 300 (VELOCIDAD_BASE + (nivel g2 - 1) * 20)"
    using verificar_comida_casos [OF c]
  proof
    assume "g2 = g1 \<and> rs' = rs"
    with f1 i show ?thesis by simp
  next
    assume "\<exists>c c' r1. comida g1 = Some c
             \<and> distancia2 (hd (serpiente g1)) (comida_x c, comida_y c) < 15 * 15
             \<and> verificar_subida_nivel r1 ((aplicar_efecto (tipo c) g1)\<lparr>comida := Some c'\<rparr>)
                 = Inr (g2, rs')"
    then obtain c c' r1 where
      su: "verificar_subida_nivel r1 ((aplicar_efecto (tipo c) g1)\<lparr>comida := Some c'\<rparr>)
                 = Inr (g2, rs')"
      by blast
    let ?ga = "(aplicar_efecto (tipo c) g1)\<lparr>comida := Some c'\<rparr>"
    have na: "nivel ?ga = nivel g"
      by (simp add: campos_aplicar_efecto f1 del: aplicar_efecto.simps)
    have va: "50 \<le> velocidad_actual ?ga
       \<and> velocidad_actual ?ga \<le> max 300 (VELOCIDAD_BASE + (nivel g - 1) * 20)"
      using cota_aplicar_efecto [of g1 "tipo c"] i f1
      by (simp del: aplicar_efecto.simps)
    from verificar_subida_nivel_casos [OF su] show ?thesis
    proof
      assume "\<not> nivel ?ga < puntaje ?ga div 50 + 1 \<and> g2 = ?ga"
      then have "g2 = ?ga" by (rule conjunct2)
      with na va i(1) show ?thesis by (simp del: aplicar_efecto.simps)
    next
      assume "nivel ?ga < puntaje ?ga div 50 + 1
           \<and> (\<exists>nuevos. g2 = ?ga\<lparr>nivel := puntaje ?ga div 50 + 1,
                          velocidad_actual := VELOCIDAD_BASE + (puntaje ?ga div 50) * 20,
                          mensaje_actual := MsgNivel (puntaje ?ga div 50 + 1),
                          tiempo_mensaje := 60,
                          color_mensaje := ''cyan'',
                          obstaculos := obstaculos ?ga @ nuevos\<rparr>
                 \<and> length nuevos = nat (2 * (puntaje ?ga div 50)))"
      then obtain nuevos where
        lt: "nivel ?ga < puntaje ?ga div 50 + 1" and
        e2: "g2 = ?ga\<lparr>nivel := puntaje ?ga div 50 + 1,
                          velocidad_actual := VELOCIDAD_BASE + (puntaje ?ga div 50) * 20,
                          mensaje_actual := MsgNivel (puntaje ?ga div 50 + 1),
                          tiempo_mensaje := 60,
                          color_mensaje := ''cyan'',
                          obstaculos := obstaculos ?ga @ nuevos\<rparr>"
        by blast
      have n2: "nivel g2 = puntaje ?ga div 50 + 1"
        "velocidad_actual g2 = VELOCIDAD_BASE + (puntaje ?ga div 50) * 20"
        by (subst e2, simp del: aplicar_efecto.simps)+
      from lt na i(1) have "1 \<le> puntaje ?ga div 50" by simp
      with n2 show ?thesis by (simp add: VELOCIDAD_BASE_def del: aplicar_efecto.simps)
    qed
  qed
  have "nivel g' = nivel g2" by (simp add: g' campos_fin_turno)
  moreover have "velocidad_actual g' = (if caduca g2 then VELOCIDAD_BASE else velocidad_actual g2)"
    by (simp add: g' velocidad_fin_turno)
  ultimately show ?thesis using k by (auto simp: VELOCIDAD_BASE_def max_def)
qed

lemma alcanzable_cota_velocidad:
  "alcanzable g \<Longrightarrow>
   1 \<le> nivel g \<and> 50 \<le> velocidad_actual g
     \<and> velocidad_actual g \<le> max 300 (VELOCIDAD_BASE + (nivel g - 1) * 20)"
proof (induction rule: alcanzable.induct)
  case (inicio rs g rs')
  from JuegoSnake_campos [OF inicio] obtain c where
    "g = \<lparr>serpiente = [(0, 0)], obstaculos = [], comida = Some c,
                  direccion = ''derecha'', puntaje = 0, nivel = 1, juegos_jugados = 0,
                  velocidad_actual = VELOCIDAD_BASE, efecto_temporal = None,
                  mensaje_actual = MsgVacio, color_mensaje = ''white'',
                  tiempo_mensaje = 0\<rparr>"
    by blast
  then show ?case by (simp add: VELOCIDAD_BASE_def)
next
  case (turno g teclas rs g' rs')
  from turno.IH have i: "1 \<le> nivel g" "50 \<le> velocidad_actual g"
    "velocidad_actual g \<le> max 300 (VELOCIDAD_BASE + (nivel g - 1) * 20)"
    by simp_all
  from paso_cota_velocidad [OF i turno.hyps(3)] show ?case .
qed

lemma vigente_base:
  "vigente g \<Longrightarrow>
   efecto_temporal g = None \<longrightarrow> velocidad_actual g = VELOCIDAD_BASE + (nivel g - 1) * 20"
proof (induction rule: vigente.induct)
  case (vigente_inicio rs g rs')
  from JuegoSnake_campos [OF vigente_inicio] obtain c where
    "g = \<lparr>serpiente = [(0, 0)], obstaculos = [], comida = Some c,
                  direccion = ''derecha'', puntaje = 0, nivel = 1, juegos_jugados = 0,
                  velocidad_actual = VELOCIDAD_BASE, efecto_temporal = None,
                  mensaje_actual = MsgVacio, color_mensaje = ''white'',
                  tiempo_mensaje = 0\<rparr>"
    by blast
  then show ?case by simp
next
  case (vigente_muerte g teclas rs g' rs')
  let ?g = "atender_teclas teclas g"
  from vigente_muerte.hyps(4) paso_muere [OF vigente_muerte.hyps(3), of rs]
  have "game_over rs ?g = Inr (g', rs')"
    by simp
  from game_over_campos [OF this] obtain c rs1 where
    e: "g' = \<lparr>serpiente = [(0, 0)], obstaculos = obstaculos g', comida = Some c,
                      direccion = ''derecha'', puntaje = puntaje ?g,
                      nivel = nivel ?g,
                      juegos_jugados = juegos_jugados ?g + 1,
                      velocidad_actual = VELOCIDAD_BASE + (nivel ?g - 1) * 20,
                      efecto_temporal = None,
                      mensaje_actual = MsgReinicio (juegos_jugados ?g + 1),
                      color_mensaje = ''yellow'', tiempo_mensaje = 60\<rparr>"
    by blast
  have "nivel g' = nivel ?g" "velocidad_actual g' = VELOCIDAD_BASE + (nivel ?g - 1) * 20"
    by (subst e, simp)+
  then show ?case by simp
next
  case (vigente_subida g teclas g1 rs g2 rs')
  obtain d where d: "atender_teclas teclas g = g\<lparr>direccion := d\<rparr>"
    using atender_teclas_campo by blast
  from mover_serpiente_campo [OF vigente_subida.hyps(4)] obtain s' where
    s': "g1 = (atender_teclas teclas g)\<lparr>serpiente := s'\<rparr>"
    by blast
  have f1: "nivel g1 = nivel g"
    using s' by (simp add: d)
  have b2: "velocidad_actual g2 = VELOCIDAD_BASE + (nivel g2 - 1) * 20"
    using verificar_comida_casos [OF vigente_subida.hyps(5)]
  proof
    assume "g2 = g1 \<and> rs' = rs"
    with f1 vigente_subida.hyps(6) show ?thesis by simp
  next
    assume "\<exists>c c' r1. comida g1 = Some c
             \<and> distancia2 (hd (serpiente g1)) (comida_x c, comida_y c) < 15 * 15
             \<and> verificar_subida_nivel r1 ((aplicar_efecto (tipo c) g1)\<lparr>comida := Some c'\<rparr>)
                 = Inr (g2, rs')"
    then obtain c c' r1 where
      su: "verificar_subida_nivel r1 ((aplicar_efecto (tipo c) g1)\<lparr>comida := Some c'\<rparr>)
                 = Inr (g2, rs')"
      by blast
    let ?ga = "(aplicar_efecto (tipo c) g1)\<lparr>comida := Some c'\<rparr>"
    have na: "nivel ?ga = nivel g"
      by (simp add: campos_aplicar_efecto f1 del: aplicar_efecto.simps)
    from verificar_subida_nivel_casos [OF su] show ?thesis
    proof
      assume "\<not> nivel ?ga < puntaje ?ga div 50 + 1 \<and> g2 = ?ga"
      then have "g2 = ?ga" by (rule conjunct2)
      with na vigente_subida.hyps(6) show ?thesis by (simp del: aplicar_efecto.simps)
    next
      assume "nivel ?ga < puntaje ?ga div 50 + 1
           \<and> (\<exists>nuevos. g2 = ?ga\<lparr>nivel := puntaje ?ga div 50 + 1,
                          velocidad_actual := VELOCIDAD_BASE + (puntaje ?ga div 50) * 20,
                          mensaje_actual := MsgNivel (puntaje ?ga div 50 + 1),
                          tiempo_mensaje := 60,
                          color_mensaje := ''cyan'',
                          obstaculos := obstaculos ?ga @ nuevos\<rparr>
                 \<and> length nuevos = nat (2 * (puntaje ?ga div 50)))"
      then obtain nuevos where
        e2: "g2 = ?ga\<lparr>nivel := puntaje ?ga div 50 + 1,
                          velocidad_actual := VELOCIDAD_BASE + (puntaje ?ga div 50) * 20,
                          mensaje_actual := MsgNivel (puntaje ?ga div 50 + 1),
                          tiempo_mensaje := 60,
                          color_mensaje := ''cyan'',
                          obstaculos := obstaculos ?ga @ nuevos\<rparr>"
        by blast
      have "nivel g2 = puntaje ?ga div 50 + 1"
        "velocidad_actual g2 = VELOCIDAD_BASE + (puntaje ?ga div 50) * 20"
        by (subst e2, simp del: aplicar_efecto.simps)+
      then show ?thesis by simp
    qed
  qed
  show ?case
    using b2 vigente_subida.hyps(7)
    by (simp add: velocidad_fin_turno campos_fin_turno)
next
  case (vigente_sigue g teclas g1 rs g2 rs')
  obtain d where d: "atender_teclas teclas g = g\<lparr>direccion := d\<rparr>"
    using atender_teclas_campo by blast
  from mover_serpiente_campo [OF vigente_sigue.hyps(4)] obtain s' where
    s': "g1 = (atender_teclas teclas g)\<lparr>serpiente := s'\<rparr>"
    by blast
  have f1: "nivel g1 = nivel g" "velocidad_actual g1 = velocidad_actual g"
    "efecto_temporal g1 = efecto_temporal g"
    using s' by (simp_all add: d)
  note nc = vigente_sigue.hyps(6)
  have b2: "efecto_temporal g2 = None \<longrightarrow>
            velocidad_actual g2 = VELOCIDAD_BASE + (nivel g2 - 1) * 20"
    using verificar_comida_casos [OF vigente_sigue.hyps(5)]
  proof
    assume "g2 = g1 \<and> rs' = rs"
    with f1 vigente_sigue.IH show ?thesis by simp
  next
    assume "\<exists>c c' r1. comida g1 = Some c
             \<and> distancia2 (hd (serpiente g1)) (comida_x c, comida_y c) < 15 * 15
             \<and> verificar_subida_nivel r1 ((aplicar_efecto (tipo c) g1)\<lparr>comida := Some c'\<rparr>)
                 = Inr (g2, rs')"
    then obtain c c' r1 where
      su: "verificar_subida_nivel r1 ((aplicar_efecto (tipo c) g1)\<lparr>comida := Some c'\<rparr>)
                 = Inr (g2, rs')"
      by blast
    let ?ga = "(aplicar_efecto (tipo c) g1)\<lparr>comida := Some c'\<rparr>"
    have na: "nivel ?ga = nivel g"
      by (simp add: campos_aplicar_efecto f1 del: aplicar_efecto.simps)
    have ea: "efecto_temporal ?ga = None \<longrightarrow>
        efecto_temporal g = None \<and> velocidad_actual ?ga = velocidad_actual g"
      by (simp add: efecto_aplicar_efecto velocidad_aplicar_efecto f1
          del: aplicar_efecto.simps)
    from verificar_subida_nivel_casos [OF su] show ?thesis
    proof
      assume "\<not> nivel ?ga < puntaje ?ga div 50 + 1 \<and> g2 = ?ga"
      then have "g2 = ?ga" by (rule conjunct2)
      with na ea vigente_sigue.IH show ?thesis by (simp del: aplicar_efecto.simps)
    next
      assume "nivel ?ga < puntaje ?ga div 50 + 1
           \<and> (\<exists>nuevos. g2 = ?ga\<lparr>nivel := puntaje ?ga div 50 + 1,
                          velocidad_actual := VELOCIDAD_BASE + (puntaje ?ga div 50) * 20,
                          mensaje_actual := MsgNivel (puntaje ?ga div 50 + 1),
                          tiempo_mensaje := 60,
                          color_mensaje := ''cyan'',
                          obstaculos := obstaculos ?ga @ nuevos\<rparr>
                 \<and> length nuevos = nat (2 * (puntaje ?ga div 50)))"
      then obtain nuevos where
        e2: "g2 = ?ga\<lparr>nivel := puntaje ?ga div 50 + 1,
                          velocidad_actual := VELOCIDAD_BASE + (puntaje ?ga div 50) * 20,
                          mensaje_actual := MsgNivel (puntaje ?ga div 50 + 1),
                          tiempo_mensaje := 60,
                          color_mensaje := ''cyan'',
                          obstaculos := obstaculos ?ga @ nuevos\<rparr>"
        by blast
      have "nivel g2 = puntaje ?ga div 50 + 1"
        "velocidad_actual g2 = VELOCIDAD_BASE + (puntaje ?ga div 50) * 20"
        by (subst e2, simp del: aplicar_efecto.simps)+
      then show ?thesis by simp
    qed
  qed
  show ?case
    using b2 nc
    by (simp add: velocidad_fin_turno campos_fin_turno efecto_fin_turno)
qed

text \<open>
  C3 (amended). In every reachable state the speed after applying any food effect lies
  between 50 and \<open>max 300 (VELOCIDAD_BASE + (nivel - 1) * 20)\<close>, hence in \<open>[50, 300]\<close> up to
  level 8 (the keys and the move that precede the effect within a turn change neither
  speed nor level); in any state at all, High-fat never leaves the speed below 50 and
  Royal never above 300. In every state of \<open>vigente\<close> (no effect has ended since the speed was last
  set from the level by the constructor, a death-reset or a level-up) in which no effect
  is active, the speed is exactly \<open>VELOCIDAD_BASE + (nivel - 1) * 20\<close>.
\<close>

theorem velocidad_tras_efecto:
  "(alcanzable g \<longrightarrow>
      50 \<le> velocidad_actual (aplicar_efecto t g)
      \<and> velocidad_actual (aplicar_efecto t g) \<le> max 300 (VELOCIDAD_BASE + (nivel g - 1) * 20)
      \<and> (nivel g \<le> 8 \<longrightarrow> velocidad_actual (aplicar_efecto t g) \<le> 300))
   \<and> 50 \<le> velocidad_actual (aplicar_efecto ALTO_GRASAS g)
   \<and> velocidad_actual (aplicar_efecto REAL g) \<le> 300
   \<and> (vigente g \<and> efecto_temporal g = None \<longrightarrow>
        velocidad_actual g = VELOCIDAD_BASE + (nivel g - 1) * 20)"
proof (intro conjI)
  show "alcanzable g \<longrightarrow>
      50 \<le> velocidad_actual (aplicar_efecto t g)
      \<and> velocidad_actual (aplicar_efecto t g) \<le> max 300 (VELOCIDAD_BASE + (nivel g - 1) * 20)
      \<and> (nivel g \<le> 8 \<longrightarrow> velocidad_actual (aplicar_efecto t g) \<le> 300)"
  proof
    assume "alcanzable g"
    from alcanzable_cota_velocidad [OF this] have
      i: "50 \<le> velocidad_actual g"
        "velocidad_actual g \<le> max 300 (VELOCIDAD_BASE + (nivel g - 1) * 20)"
      by simp_all
    from cota_aplicar_efecto [OF i, of t] have
      c: "50 \<le> velocidad_actual (aplicar_efecto t g)"
        "velocidad_actual (aplicar_efecto t g)
           \<le> max 300 (VELOCIDAD_BASE + (nivel g - 1) * 20)"
      by simp_all
    have "nivel g \<le> 8 \<longrightarrow> max 300 (VELOCIDAD_BASE + (nivel g - 1) * 20) = 300"
      by (simp add: VELOCIDAD_BASE_def max_def)
    with c show "50 \<le> velocidad_actual (aplicar_efecto t g)
      \<and> velocidad_actual (aplicar_efecto t g) \<le> max 300 (VELOCIDAD_BASE + (nivel g - 1) * 20)
      \<and> (nivel g \<le> 8 \<longrightarrow> velocidad_actual (aplicar_efecto t g) \<le> 300)"
      by (auto simp del: aplicar_efecto.simps)
  qed
  show "50 \<le> velocidad_actual (aplicar_efecto ALTO_GRASAS g)"
    by (simp add: mostrar_mensaje_def crecer_serpiente_def)
  show "velocidad_actual (aplicar_efecto REAL g) \<le> 300"
    by (simp add: mostrar_mensaje_def crecer_serpiente_def)
  show "vigente g \<and> efecto_temporal g = None \<longrightarrow>
        velocidad_actual g = VELOCIDAD_BASE + (nivel g - 1) * 20"
    using vigente_base [of g] by blast
qed

lemma muere_estado_15: "muere (atender_teclas [] estado_15)"
  by code_simp

lemma vigente_estado_16: "vigente estado_16"
  by (rule vigente.vigente_muerte
        [OF alcanzable_estado_15 sin_teclas_validas muere_estado_15 vida_1e])

theorem velocidad_tras_efecto_witness:
  "alcanzable estado_10 \<and> nivel estado_10 \<le> 8
   \<and> velocidad_actual (aplicar_efecto REAL estado_10) = 200
   \<and> 50 \<le> velocidad_actual (aplicar_efecto REAL estado_10)
   \<and> velocidad_actual (aplicar_efecto REAL estado_10) \<le> 300
   \<and> vigente estado_16 \<and> efecto_temporal estado_16 = None
   \<and> velocidad_actual estado_16 = VELOCIDAD_BASE + (nivel estado_16 - 1) * 20
   \<and> velocidad_actual estado_16 = 170"
proof -
  note t1 = velocidad_tras_efecto [of estado_10 REAL]
  note t2 = velocidad_tras_efecto [of estado_16 REAL]
  have n: "nivel estado_10 \<le> 8" and e: "efecto_temporal estado_16 = None"
    and v: "velocidad_actual (aplicar_efecto REAL estado_10) = 200"
    and w: "velocidad_actual estado_16 = 170"
    by (simp_all add: estado_10_def estado_16_def mostrar_mensaje_def crecer_serpiente_def)
  from t1 alcanzable_estado_10 n have
    a: "50 \<le> velocidad_actual (aplicar_efecto REAL estado_10)"
       "velocidad_actual (aplicar_efecto REAL estado_10) \<le> 300"
    by blast+
  from t2 vigente_estado_16 e have
    b: "velocidad_actual estado_16 = VELOCIDAD_BASE + (nivel estado_16 - 1) * 20"
    by blast
  from alcanzable_estado_10 n v a vigente_estado_16 e b w show ?thesis
    by (intro conjI)
qed

end
